theory Spec2Isabelle
  imports Complex_Main
begin

section \<open>Python values used by the game\<close>

text \<open>
  The three source files are variants of one game. \<^verbatim>\<open>main1.py\<close> is modelled in
  full (its bird, pipes, spawner, collision test, score and state machine);
  the parts of \<^verbatim>\<open>mian.py\<close> that differ are modelled beside it under names ending
  in \<open>_mian\<close>. The third file, \<^verbatim>\<open>mainsonnet4.py\<close>, is not modelled. Python's
  \<^verbatim>\<open>float\<close> is idealised as \<^typ>\<open>real\<close> (no rounding, no infinities, no NaN),
  Python's \<^verbatim>\<open>int\<close> is \<^typ>\<open>int\<close>. Rendering and audio do not influence the game
  state and are left out, and so is the flag of \<^verbatim>\<open>run\<close> that only times the death
  sound.
\<close>

datatype py_error = ValueError | ZeroDivisionError

text \<open>\<^verbatim>\<open>int(x)\<close> on a float truncates toward zero.\<close>

definition int_of_float :: "real \<Rightarrow> int" where
  "int_of_float v = (if 0 \<le> v then \<lfloor>v\<rfloor> else \<lceil>v\<rceil>)"

subsection \<open>\<^verbatim>\<open>str\<close> and \<^verbatim>\<open>int\<close> on decimal text\<close>

definition digit_char :: "nat \<Rightarrow> char" where
  "digit_char d = char_of (48 + d)"

definition is_digit :: "char \<Rightarrow> bool" where
  "is_digit c = (48 \<le> (of_char c :: nat) \<and> (of_char c :: nat) \<le> 57)"

definition digit_val :: "char \<Rightarrow> nat" where
  "digit_val c = of_char c - 48"

text \<open>The characters \<^verbatim>\<open>str.strip()\<close> removes (the ASCII ones).\<close>

definition is_space :: "char \<Rightarrow> bool" where
  "is_space c = ((of_char c :: nat) \<in> {9, 10, 11, 12, 13, 28, 29, 30, 31, 32})"

fun str_nat :: "nat \<Rightarrow> string" where
  "str_nat n = (if n < 10 then [digit_char n] else str_nat (n div 10) @ [digit_char (n mod 10)])"

declare str_nat.simps [simp del]

text \<open>
  \<^verbatim>\<open>str(n)\<close> for an integer, without the limit that recent interpreters put on
  the number of digits of a conversion.
\<close>

definition str_int :: "int \<Rightarrow> string" where
  "str_int n = (if n < 0 then CHR ''-'' # str_nat (nat (- n)) else str_nat (nat n))"

definition strip :: "string \<Rightarrow> string" where
  "strip s = rev (dropWhile is_space (rev (dropWhile is_space s)))"

text \<open>
  The digits of a decimal literal after its first digit: a single underscore is
  allowed between two digits. \<open>None\<close> stands for \<^verbatim>\<open>ValueError\<close>.
\<close>

fun parse_digits :: "string \<Rightarrow> nat \<Rightarrow> nat option" where
  "parse_digits [] acc = Some acc"
| "parse_digits (c # cs) acc =
     (if is_digit c then parse_digits cs (acc * 10 + digit_val c)
      else if c = CHR ''_'' then
        (case cs of [] \<Rightarrow> None
         | d # ds \<Rightarrow> if is_digit d then parse_digits cs acc else None)
      else None)"

definition parse_unsigned :: "string \<Rightarrow> nat option" where
  "parse_unsigned s =
     (case s of [] \<Rightarrow> None
      | d # ds \<Rightarrow> if is_digit d then parse_digits s 0 else None)"

text \<open>\<^verbatim>\<open>int(s)\<close> for a string: surrounding whitespace, an optional sign, digits.\<close>

definition int_of_str :: "string \<Rightarrow> int option" where
  "int_of_str s =
     (case strip s of [] \<Rightarrow> None
      | c # cs \<Rightarrow>
          if c = CHR ''-'' then map_option (\<lambda>n. - int n) (parse_unsigned cs)
          else if c = CHR ''+'' then map_option int (parse_unsigned cs)
          else map_option int (parse_unsigned (c # cs)))"

subsection \<open>The high-score file\<close>

text \<open>
  The file \<^verbatim>\<open>highscore.txt\<close> of the working directory: its text when it exists and
  can be read, and whether opening it for writing succeeds.
\<close>

record store =
  content :: "string option"
  writable :: bool

text \<open>
  \<^verbatim>\<open>Game._load_high_score\<close>: every exception (missing file, text that \<^verbatim>\<open>int\<close>
  rejects) is caught and gives 0.
\<close>

definition load_high_score :: "store \<Rightarrow> int" where
  "load_high_score st =
     (case content st of None \<Rightarrow> 0
      | Some s \<Rightarrow> (case int_of_str (strip s) of None \<Rightarrow> 0 | Some n \<Rightarrow> n))"

text \<open>
  The file effect of \<^verbatim>\<open>Game._save_high_score\<close> for the value \<open>hs\<close> of
  \<^verbatim>\<open>self.high_score\<close>: a failing \<^verbatim>\<open>open\<close> is caught and changes nothing.
\<close>

definition write_high_score :: "int \<Rightarrow> store \<Rightarrow> store" where
  "write_high_score hs st =
     (if writable st then st\<lparr>content := Some (str_int hs)\<rparr> else st)"

section \<open>pygame values\<close>

text \<open>A \<^verbatim>\<open>pygame.Surface\<close>: the game state depends on its size only.\<close>

record surface =
  img_width :: int
  img_height :: int

text \<open>A \<^verbatim>\<open>pygame.Rect\<close> with its integer fields.\<close>

record rect =
  rect_left :: int
  rect_top :: int
  rect_width :: int
  rect_height :: int

definition Rect :: "int \<Rightarrow> int \<Rightarrow> int \<Rightarrow> int \<Rightarrow> rect" where
  "Rect l t w h = \<lparr>rect_left = l, rect_top = t, rect_width = w, rect_height = h\<rparr>"

definition rect_bottom :: "rect \<Rightarrow> int" where
  "rect_bottom r = rect_top r + rect_height r"

text \<open>Division of C integers truncates toward zero.\<close>

definition c_div :: "int \<Rightarrow> int \<Rightarrow> int" where
  "c_div a b = sgn a * sgn b * (\<bar>a\<bar> div \<bar>b\<bar>)"

text \<open>
  \<^verbatim>\<open>Rect.inflate_ip(dx, dy)\<close> as pygame implements it: the size grows by the
  amounts given and the origin moves by half of them.
\<close>

definition inflate_ip :: "int \<Rightarrow> int \<Rightarrow> rect \<Rightarrow> rect" where
  "inflate_ip dx dy r =
     \<lparr>rect_left = rect_left r - c_div dx 2, rect_top = rect_top r - c_div dy 2,
      rect_width = rect_width r + dx, rect_height = rect_height r + dy\<rparr>"

text \<open>\<^verbatim>\<open>Rect.colliderect\<close> as pygame implements it: empty rectangles never collide.\<close>

definition colliderect :: "rect \<Rightarrow> rect \<Rightarrow> bool" where
  "colliderect a b =
     (if rect_width a = 0 \<or> rect_height a = 0 \<or> rect_width b = 0 \<or> rect_height b = 0
      then False
      else min (rect_left a) (rect_left a + rect_width a)
             < max (rect_left b) (rect_left b + rect_width b)
         \<and> min (rect_top a) (rect_top a + rect_height a)
             < max (rect_top b) (rect_top b + rect_height b)
         \<and> max (rect_left a) (rect_left a + rect_width a)
             > min (rect_left b) (rect_left b + rect_width b)
         \<and> max (rect_top a) (rect_top a + rect_height a)
             > min (rect_top b) (rect_top b + rect_height b))"

text \<open>
  The random module: \<open>r\<close> is the entropy a call consumes, so that every outcome
  the library can give is the outcome for some \<open>r\<close>. \<^verbatim>\<open>random.randint(a, b)\<close>
  raises \<^verbatim>\<open>ValueError\<close> on an empty range; \<^verbatim>\<open>random.choice\<close> is only called on
  non-empty literal lists.
\<close>

definition random_randint :: "int \<Rightarrow> int \<Rightarrow> nat \<Rightarrow> py_error + int" where
  "random_randint a b r =
     (if b < a then Inl ValueError else Inr (a + int (r mod nat (b - a + 1))))"

definition random_choice :: "'a list \<Rightarrow> nat \<Rightarrow> 'a" where
  "random_choice xs r = xs ! (r mod length xs)"

section \<open>The bird\<close>

text \<open>
  The fields of \<^verbatim>\<open>Bird\<close> in \<^verbatim>\<open>mian.py\<close>; \<^verbatim>\<open>main1.py\<close> adds the terminal velocity
  and the idle wobble. \<^verbatim>\<open>position_x\<close> is assigned once, from a pair of integers.
\<close>

record bird =
  frames :: "surface list"
  animation_index :: int
  animation_timer :: real
  animation_interval :: real
  position_x :: int
  position_y :: real
  velocity_y :: real
  rotation :: real
  dead :: bool

record bird1 = bird +
  max_fall_speed :: real
  wobble_amplitude :: real
  wobble_timer :: real

definition Bird_init :: "surface list \<Rightarrow> int \<times> int \<Rightarrow> bird1" where
  "Bird_init fs start_pos =
     \<lparr>frames = fs, animation_index = 0, animation_timer = 0, animation_interval = 0.08,
      position_x = fst start_pos, position_y = real_of_int (snd start_pos),
      velocity_y = 0, rotation = 0, dead = False,
      max_fall_speed = 400, wobble_amplitude = 3, wobble_timer = 0\<rparr>"

definition Bird_init_mian :: "surface list \<Rightarrow> int \<times> int \<Rightarrow> bird" where
  "Bird_init_mian fs start_pos =
     \<lparr>frames = fs, animation_index = 0, animation_timer = 0, animation_interval = 0.08,
      position_x = fst start_pos, position_y = real_of_int (snd start_pos),
      velocity_y = 0, rotation = 0, dead = False\<rparr>"

text \<open>The property \<^verbatim>\<open>Bird.image\<close>; the modulus raises when there is no frame.\<close>

definition Bird_image :: "'a bird_scheme \<Rightarrow> py_error + surface" where
  "Bird_image b =
     (if frames b = [] then Inl ZeroDivisionError
      else Inr (frames b ! nat (animation_index b mod int (length (frames b)))))"

text \<open>\<^verbatim>\<open>Bird.rect\<close> of \<^verbatim>\<open>main1.py\<close>, with the hitbox shrunk by 8.\<close>

definition Bird_rect :: "bird1 \<Rightarrow> py_error + rect" where
  "Bird_rect b =
     (case Bird_image b of Inl e \<Rightarrow> Inl e
      | Inr img \<Rightarrow>
          Inr (inflate_ip (- 8) (- 8)
                 (Rect (position_x b) (int_of_float (position_y b))
                    (img_width img) (img_height img))))"

definition Bird_rect_mian :: "bird \<Rightarrow> py_error + rect" where
  "Bird_rect_mian b =
     (case Bird_image b of Inl e \<Rightarrow> Inl e
      | Inr img \<Rightarrow>
          Inr (Rect (position_x b) (int_of_float (position_y b))
                 (img_width img) (img_height img)))"

text \<open>
  \<^verbatim>\<open>Bird.update_animation\<close> of \<^verbatim>\<open>mian.py\<close>: the timer runs and, when it reaches
  the interval, restarts and moves the index to the next frame.
\<close>

definition update_animation :: "real \<Rightarrow> 'a bird_scheme \<Rightarrow> py_error + 'a bird_scheme" where
  "update_animation dt b =
     (let t = animation_timer b + dt in
      if t \<ge> animation_interval b then
        if frames b = [] then Inl ZeroDivisionError
        else Inr (b\<lparr>animation_timer := 0,
                    animation_index := (animation_index b + 1) mod int (length (frames b))\<rparr>)
      else Inr (b\<lparr>animation_timer := t\<rparr>))"

text \<open>
  The first statement of \<^verbatim>\<open>Bird.update\<close>, the same text in both files: a dead bird
  shows frame 1, a living one animates as above.
\<close>

definition animate :: "real \<Rightarrow> 'a bird_scheme \<Rightarrow> py_error + 'a bird_scheme" where
  "animate dt b =
     (if dead b then Inr (b\<lparr>animation_index := 1\<rparr>) else update_animation dt b)"

text \<open>The rest of \<^verbatim>\<open>Bird.update\<close> of \<^verbatim>\<open>main1.py\<close>, after the animation.\<close>

definition integrate :: "real \<Rightarrow> real \<Rightarrow> real \<Rightarrow> bool \<Rightarrow> bird1 \<Rightarrow> bird1" where
  "integrate dt gravity rotation_speed is_playing b =
     (if is_playing then
        let v = min (velocity_y b + gravity * dt) (max_fall_speed b);
            y = position_y b + v * dt;
            target_rotation = min 25 (max (- 90) (- v * 2.5))
        in b\<lparr>velocity_y := v, position_y := y,
             rotation := rotation b + (target_rotation - rotation b) * min 1 (rotation_speed * dt)\<rparr>
      else
        let wt = wobble_timer b + dt;
            wobble_offset = wobble_amplitude b * sin (wt * 3)
        in b\<lparr>wobble_timer := wt, position_y := position_y b + wobble_offset * dt * 20,
             rotation := 0\<rparr>)"

definition Bird_update :: "real \<Rightarrow> real \<Rightarrow> real \<Rightarrow> bool \<Rightarrow> bird1 \<Rightarrow> py_error + bird1" where
  "Bird_update dt gravity rotation_speed is_playing b =
     (case animate dt b of Inl e \<Rightarrow> Inl e
      | Inr b' \<Rightarrow> Inr (integrate dt gravity rotation_speed is_playing b'))"

text \<open>The rest of \<^verbatim>\<open>Bird.update\<close> of \<^verbatim>\<open>mian.py\<close>.\<close>

definition integrate_mian :: "real \<Rightarrow> real \<Rightarrow> real \<Rightarrow> real \<Rightarrow> bird \<Rightarrow> bird" where
  "integrate_mian dt gravity max_fall rot_down_speed_deg_per_sec b =
     (let v = min (velocity_y b + gravity * dt) max_fall;
          y = position_y b + v * dt
      in b\<lparr>velocity_y := v, position_y := y,
           rotation :=
             (if v < 0 then 45
              else if rotation b > - 90
                then max (- 90) (rotation b - rot_down_speed_deg_per_sec * dt)
                else rotation b)\<rparr>)"

definition Bird_update_mian :: "real \<Rightarrow> real \<Rightarrow> real \<Rightarrow> real \<Rightarrow> bird \<Rightarrow> py_error + bird" where
  "Bird_update_mian dt gravity max_fall rot_down_speed_deg_per_sec b =
     (case animate dt b of Inl e \<Rightarrow> Inl e
      | Inr b' \<Rightarrow> Inr (integrate_mian dt gravity max_fall rot_down_speed_deg_per_sec b'))"

text \<open>\<^verbatim>\<open>Bird.flap\<close> of \<^verbatim>\<open>main1.py\<close> and of \<^verbatim>\<open>mian.py\<close>.\<close>

definition Bird_flap :: "real \<Rightarrow> bird1 \<Rightarrow> bird1" where
  "Bird_flap impulse b = (if \<not> dead b then b\<lparr>velocity_y := - impulse\<rparr> else b)"

definition Bird_flap_mian :: "real \<Rightarrow> bird \<Rightarrow> bird" where
  "Bird_flap_mian impulse b =
     (if \<not> dead b then b\<lparr>velocity_y := - impulse, rotation := 45\<rparr> else b)"

section \<open>Pipes\<close>

record pipe_pair =
  pp_image :: surface
  pipe_x :: real
  gap_y :: int
  gap_size :: int
  bottom_y :: int
  speed :: real
  passed :: bool

definition PipePair_init :: "surface \<Rightarrow> int \<Rightarrow> int \<Rightarrow> int \<Rightarrow> int \<Rightarrow> pipe_pair" where
  "PipePair_init img x0 gy gs by =
     \<lparr>pp_image = img, pipe_x = real_of_int x0, gap_y = gy, gap_size = gs, bottom_y = by,
      speed = 150, passed = False\<rparr>"

definition PipePair_width :: "pipe_pair \<Rightarrow> int" where
  "PipePair_width p = img_width (pp_image p)"

text \<open>\<^verbatim>\<open>PipePair.rects\<close> of \<^verbatim>\<open>mian.py\<close>: the top and the bottom piece around the gap.\<close>

definition PipePair_rects_mian :: "pipe_pair \<Rightarrow> rect \<times> rect" where
  "PipePair_rects_mian p =
     (let top_height = gap_y p - gap_size p div 2;
          bottom_top = gap_y p + gap_size p div 2;
          top_rect = Rect (int_of_float (pipe_x p)) (top_height - img_height (pp_image p))
                       (PipePair_width p) (img_height (pp_image p));
          bottom_rect = Rect (int_of_float (pipe_x p)) bottom_top
                       (PipePair_width p) (img_height (pp_image p))
      in (top_rect, bottom_rect))"

text \<open>\<^verbatim>\<open>PipePair.rects\<close> of \<^verbatim>\<open>main1.py\<close> shrinks both by 4 in width.\<close>

definition PipePair_rects :: "pipe_pair \<Rightarrow> rect \<times> rect" where
  "PipePair_rects p =
     (case PipePair_rects_mian p of
        (top_rect, bottom_rect) \<Rightarrow> (inflate_ip (- 4) 0 top_rect, inflate_ip (- 4) 0 bottom_rect))"

definition PipePair_update :: "real \<Rightarrow> pipe_pair \<Rightarrow> pipe_pair" where
  "PipePair_update dt p = p\<lparr>pipe_x := pipe_x p - speed p * dt\<rparr>"

section \<open>The game of \<^verbatim>\<open>main1.py\<close>\<close>

datatype phase = WELCOME | PLAYING | GAME_OVER

datatype background = Day | Night

datatype bird_color = Yellow | Blue | Red

datatype pipe_color = Green | RedPipe

datatype key = K_SPACE | K_UP | K_ESCAPE | K_OTHER

datatype event = QUIT | KEYDOWN key | MOUSEBUTTONDOWN int | OTHER_EVENT

text \<open>
  \<^verbatim>\<open>SpriteLibrary\<close>: its dictionaries have fixed keys, and every bird colour is
  loaded from exactly three files.
\<close>

record sprite_library =
  lib_backgrounds :: "background \<Rightarrow> surface"
  lib_base :: surface
  lib_birds :: "bird_color \<Rightarrow> surface \<times> surface \<times> surface"
  lib_pipes :: "pipe_color \<Rightarrow> surface"

definition frames_of :: "surface \<times> surface \<times> surface \<Rightarrow> surface list" where
  "frames_of t = (case t of (downflap, midflap, upflap) \<Rightarrow> [downflap, midflap, upflap])"

text \<open>The fields of \<^verbatim>\<open>Game\<close> that both files have; \<open>'b\<close> is the file's bird.\<close>

record 'b session =
  sprites :: sprite_library
  background_key :: background
  screen_width :: int
  screen_height :: int
  base :: surface
  base_y :: int
  base_x :: real
  base_speed :: real
  pipe_image :: surface
  pipes :: "pipe_pair list"
  pipe_spawn_timer :: real
  pipe_spawn_interval :: real
  pipe_gap :: int
  bird_frames :: "surface list"
  bird :: 'b
  gravity :: real
  flap_impulse :: real
  state :: phase
  score :: int
  high_score :: int

text \<open>
  \<^verbatim>\<open>Game\<close> of \<^verbatim>\<open>main1.py\<close>, together with the file its two persistence methods
  read and write.
\<close>

record game = "bird1 session" +
  rotation_speed :: real
  base_pipe_gap :: int
  min_pipe_gap :: int
  gap_decrease_rate :: int
  highscore_file :: store

definition Game_init :: "sprite_library \<Rightarrow> store \<Rightarrow> nat \<Rightarrow> nat \<Rightarrow> nat \<Rightarrow> game" where
  "Game_init lib fs r_background r_pipe r_bird =
     (let bk = random_choice [Day, Night] r_background;
          sw = img_width (lib_backgrounds lib bk);
          sh = img_height (lib_backgrounds lib bk);
          fr = frames_of (lib_birds lib (random_choice [Yellow, Blue, Red] r_bird))
      in \<lparr>sprites = lib, background_key = bk, screen_width = sw, screen_height = sh,
          base = lib_base lib, base_y = sh - img_height (lib_base lib), base_x = 0,
          base_speed = 150,
          pipe_image = lib_pipes lib (random_choice [Green, RedPipe] r_pipe),
          pipes = [], pipe_spawn_timer = 0, pipe_spawn_interval = 1.8, pipe_gap = 140,
          bird_frames = fr, bird = Bird_init fr (sw div 4, sh div 2),
          gravity = 700, flap_impulse = 280, state = WELCOME, score = 0,
          high_score = load_high_score fs,
          rotation_speed = 8, base_pipe_gap = 140, min_pipe_gap = 100,
          gap_decrease_rate = 2, highscore_file = fs\<rparr>)"

definition save_high_score :: "game \<Rightarrow> game" where
  "save_high_score g =
     g\<lparr>highscore_file := write_high_score (high_score g) (highscore_file g)\<rparr>"

definition reset :: "nat \<Rightarrow> nat \<Rightarrow> game \<Rightarrow> game" where
  "reset r_pipe r_bird g =
     (let fr = frames_of (lib_birds (sprites g) (random_choice [Yellow, Blue, Red] r_bird))
      in g\<lparr>background_key := (if background_key g = Day then Night else Day),
           base_x := 0,
           pipe_image := lib_pipes (sprites g) (random_choice [Green, RedPipe] r_pipe),
           pipes := [], pipe_spawn_timer := 0, bird_frames := fr,
           bird := Bird_init fr (screen_width g div 4, screen_height g div 2),
           score := 0, state := WELCOME, pipe_gap := base_pipe_gap g\<rparr>)"

text \<open>The three local values of \<^verbatim>\<open>spawn_pipe\<close>.\<close>

definition current_gap :: "game \<Rightarrow> int" where
  "current_gap g =
     max (min_pipe_gap g) (base_pipe_gap g - (score g div gap_decrease_rate g) * 5)"

definition min_center :: "game \<Rightarrow> int" where
  "min_center g = int_of_float (real_of_int (screen_height g) * 0.25) + current_gap g div 2"

definition max_center :: "game \<Rightarrow> int" where
  "max_center g = base_y g - 20 - current_gap g div 2"

definition spawn_pipe :: "nat \<Rightarrow> game \<Rightarrow> py_error + game" where
  "spawn_pipe r g =
     (if gap_decrease_rate g = 0 then Inl ZeroDivisionError
      else case random_randint (min_center g) (max_center g) r of
        Inl e \<Rightarrow> Inl e
      | Inr gap_center \<Rightarrow>
          Inr (g\<lparr>pipes := pipes g @
                 [PipePair_init (pipe_image g) (screen_width g + 10) gap_center
                    (current_gap g) (base_y g)]\<rparr>))"

definition update_base :: "real \<Rightarrow> ('b, 'a) session_scheme \<Rightarrow> ('b, 'a) session_scheme" where
  "update_base dt g =
     (let bx = base_x g - base_speed g * dt
      in g\<lparr>base_x := (if bx \<le> - real_of_int (img_width (base g) - screen_width g)
                       then 0 else bx)\<rparr>)"

fun hits_pipe :: "rect \<Rightarrow> pipe_pair list \<Rightarrow> bool" where
  "hits_pipe bird_rect [] = False"
| "hits_pipe bird_rect (pipe # rest) =
     (case PipePair_rects pipe of
        (top_rect, bottom_rect) \<Rightarrow>
          if colliderect bird_rect top_rect \<or> colliderect bird_rect bottom_rect then True
          else hits_pipe bird_rect rest)"

definition check_collisions :: "game \<Rightarrow> py_error + bool" where
  "check_collisions g =
     (case Bird_rect (bird g) of Inl e \<Rightarrow> Inl e
      | Inr bird_rect \<Rightarrow>
          Inr (if rect_bottom bird_rect \<ge> base_y g - 5 then True
               else if rect_top bird_rect \<le> 0 then True
               else hits_pipe bird_rect (pipes g)))"

text \<open>
  The loop of \<^verbatim>\<open>update_score\<close>: the pipes still to visit, and the game as the
  visits so far left it. It returns the pipes with their flags set.
\<close>

fun score_loop :: "pipe_pair list \<Rightarrow> game \<Rightarrow> pipe_pair list \<times> game" where
  "score_loop [] g = ([], g)"
| "score_loop (pipe # rest) g =
     (if \<not> passed pipe \<and>
         pipe_x pipe + real_of_int (PipePair_width pipe) < real_of_int (position_x (bird g))
      then
        let g1 = g\<lparr>score := score g + 1\<rparr>;
            g2 = (if score g1 > high_score g1
                  then save_high_score (g1\<lparr>high_score := score g1\<rparr>) else g1)
        in case score_loop rest g2 of (rest', g') \<Rightarrow> (pipe\<lparr>passed := True\<rparr> # rest', g')
      else case score_loop rest g of (rest', g') \<Rightarrow> (pipe # rest', g'))"

definition update_score :: "game \<Rightarrow> game" where
  "update_score g = (case score_loop (pipes g) g of (ps, g') \<Rightarrow> g'\<lparr>pipes := ps\<rparr>)"

text \<open>
  The body that the keyboard branch and the mouse branch of \<^verbatim>\<open>handle_input\<close>
  share word for word.
\<close>

definition on_confirm :: "nat \<Rightarrow> nat \<Rightarrow> game \<Rightarrow> game" where
  "on_confirm r_pipe r_bird g =
     (case state g of
        WELCOME \<Rightarrow> g\<lparr>state := PLAYING, bird := Bird_flap (flap_impulse g) (bird g)\<rparr>
      | PLAYING \<Rightarrow> g\<lparr>bird := Bird_flap (flap_impulse g) (bird g)\<rparr>
      | GAME_OVER \<Rightarrow> reset r_pipe r_bird g)"

definition handle_input :: "event \<Rightarrow> nat \<Rightarrow> nat \<Rightarrow> game \<Rightarrow> game" where
  "handle_input ev r_pipe r_bird g =
     (case ev of
        KEYDOWN k \<Rightarrow> if k = K_SPACE \<or> k = K_UP then on_confirm r_pipe r_bird g else g
      | MOUSEBUTTONDOWN button \<Rightarrow> if button = 1 then on_confirm r_pipe r_bird g else g
      | _ \<Rightarrow> g)"

text \<open>One pass of the loop of \<^verbatim>\<open>run\<close>: the events first.\<close>

fun handle_events :: "event list \<Rightarrow> nat \<Rightarrow> nat \<Rightarrow> bool \<times> game \<Rightarrow> bool \<times> game" where
  "handle_events [] r_pipe r_bird (running, g) = (running, g)"
| "handle_events (ev # evs) r_pipe r_bird (running, g) =
     (if ev = QUIT then handle_events evs r_pipe r_bird (False, g)
      else if ev = KEYDOWN K_ESCAPE then handle_events evs r_pipe r_bird (False, g)
      else handle_events evs r_pipe r_bird (running, handle_input ev r_pipe r_bird g))"

text \<open>
  The \<^verbatim>\<open>PLAYING\<close> branch up to the collision test: the bird moves, the spawn
  timer runs, the pipes move and those far off the left edge are dropped.
\<close>

definition playing_motion :: "real \<Rightarrow> nat \<Rightarrow> game \<Rightarrow> py_error + game" where
  "playing_motion dt r_center g =
     (case Bird_update dt (gravity g) (rotation_speed g) True (bird g) of
        Inl e \<Rightarrow> Inl e
      | Inr b \<Rightarrow>
          (let g1 = g\<lparr>bird := b, pipe_spawn_timer := pipe_spawn_timer g + dt\<rparr>
           in case (if pipe_spawn_timer g1 \<ge> pipe_spawn_interval g1
                    then spawn_pipe r_center (g1\<lparr>pipe_spawn_timer := 0\<rparr>) else Inr g1) of
                Inl e \<Rightarrow> Inl e
              | Inr g2 \<Rightarrow>
                  Inr (g2\<lparr>pipes :=
                         filter (\<lambda>p. pipe_x p + real_of_int (PipePair_width p) > - 50)
                           (map (PipePair_update dt) (pipes g2))\<rparr>)))"

text \<open>The collision test, the change of phase and the score, in the source's order.\<close>

definition playing_outcome :: "game \<Rightarrow> py_error + game" where
  "playing_outcome g =
     (case check_collisions g of Inl e \<Rightarrow> Inl e
      | Inr hit \<Rightarrow>
          Inr (update_score
                 (if hit then g\<lparr>state := GAME_OVER, bird := (bird g)\<lparr>dead := True\<rparr>\<rparr>
                  else g)))"

definition run_playing :: "real \<Rightarrow> nat \<Rightarrow> game \<Rightarrow> py_error + game" where
  "run_playing dt r_center g =
     (case playing_motion dt r_center g of Inl e \<Rightarrow> Inl e | Inr g' \<Rightarrow> playing_outcome g')"

definition run_welcome :: "real \<Rightarrow> game \<Rightarrow> py_error + game" where
  "run_welcome dt g =
     (case Bird_update dt (gravity g) (rotation_speed g) False (bird g) of
        Inl e \<Rightarrow> Inl e | Inr b \<Rightarrow> Inr (g\<lparr>bird := b\<rparr>))"

definition run_game_over :: "real \<Rightarrow> game \<Rightarrow> py_error + game" where
  "run_game_over dt g =
     (case Bird_update dt (gravity g * 1.5) (rotation_speed g) True (bird g) of
        Inl e \<Rightarrow> Inl e | Inr b \<Rightarrow> Inr (g\<lparr>bird := b\<rparr>))"

text \<open>The simulation part of one pass of the loop, after the events.\<close>

definition simulate :: "real \<Rightarrow> nat \<Rightarrow> game \<Rightarrow> py_error + game" where
  "simulate dt r_center g =
     (let g1 = update_base dt g in
      case state g1 of
        WELCOME \<Rightarrow> run_welcome dt g1
      | PLAYING \<Rightarrow> run_playing dt r_center g1
      | GAME_OVER \<Rightarrow> run_game_over dt g1)"

text \<open>
  One pass of the loop: \<open>dt_ms\<close> is what the clock returned, \<open>evs\<close> the events
  drained, the three \<open>r_\<close> the entropy for at most one reset and one spawn.
\<close>

definition run_step ::
  "int \<Rightarrow> event list \<Rightarrow> nat \<Rightarrow> nat \<Rightarrow> nat \<Rightarrow> game \<Rightarrow> py_error + bool \<times> game" where
  "run_step dt_ms evs r_pipe r_bird r_center g =
     (let dt = real_of_int dt_ms / 1000.0 in
      case handle_events evs r_pipe r_bird (True, g) of
        (running, g1) \<Rightarrow>
          (case simulate dt r_center g1 of
             Inl e \<Rightarrow> Inl e
           | Inr g2 \<Rightarrow> Inr (running, g2)))"

text \<open>
  The states a session can be in when it started as \<open>g0\<close>: those that inputs and
  simulation steps lead to.
\<close>

inductive reachable :: "game \<Rightarrow> game \<Rightarrow> bool" for g0 :: game where
  start: "reachable g0 g0"
| input: "reachable g0 g \<Longrightarrow> reachable g0 (handle_input ev r_pipe r_bird g)"
| frame: "reachable g0 g \<Longrightarrow> simulate dt r_center g = Inr g' \<Longrightarrow> reachable g0 g'"

text \<open>
  What a session keeps from its start: the playfield and the difficulty settings
  never change, the score is never negative, and the bird on the welcome screen
  is alive.
\<close>

definition session_facts :: "game \<Rightarrow> game \<Rightarrow> bool" where
  "session_facts g0 g =
     (screen_height g = screen_height g0 \<and> base_y g = base_y g0
      \<and> base_pipe_gap g = base_pipe_gap g0 \<and> min_pipe_gap g = min_pipe_gap g0
      \<and> gap_decrease_rate g = gap_decrease_rate g0 \<and> flap_impulse g = flap_impulse g0
      \<and> 0 \<le> score g \<and> (state g = WELCOME \<longrightarrow> \<not> dead (bird g)))"

text \<open>The inputs that \<^verbatim>\<open>handle_input\<close> acts on: space, up, the primary mouse button.\<close>

definition confirm :: "event \<Rightarrow> bool" where
  "confirm ev = (ev = KEYDOWN K_SPACE \<or> ev = KEYDOWN K_UP \<or> ev = MOUSEBUTTONDOWN 1)"

text \<open>
  The test of \<^verbatim>\<open>update_score\<close> for one pipe, given the x the bird is compared at:
  not yet flagged, and the right edge strictly to the left of it.
\<close>

definition crosses :: "int \<Rightarrow> pipe_pair \<Rightarrow> bool" where
  "crosses bird_x pipe =
     (\<not> passed pipe \<and> pipe_x pipe + real_of_int (PipePair_width pipe) < real_of_int bird_x)"

text \<open>
  The test of the prune in \<^verbatim>\<open>run\<close> for one pipe: it stays in the collection
  while its right edge is right of 50 pixels left of the screen.
\<close>

definition stays :: "pipe_pair \<Rightarrow> bool" where
  "stays pipe = (pipe_x pipe + real_of_int (PipePair_width pipe) > - 50)"

section \<open>The game of \<^verbatim>\<open>mian.py\<close>\<close>

text \<open>
  \<^verbatim>\<open>Game\<close> of \<^verbatim>\<open>mian.py\<close>: no difficulty ramp and no high-score file, but the
  terminal velocity and the rotation speed are fields of the game.
\<close>

record game_mian = "bird session" +
  game_max_fall_speed :: real
  rot_down_speed :: real

definition Game_init_mian :: "sprite_library \<Rightarrow> nat \<Rightarrow> game_mian" where
  "Game_init_mian lib r_background =
     (let bk = random_choice [Day, Night] r_background;
          sw = img_width (lib_backgrounds lib bk);
          sh = img_height (lib_backgrounds lib bk);
          fr = frames_of (lib_birds lib Yellow)
      in \<lparr>sprites = lib, background_key = bk, screen_width = sw, screen_height = sh,
          base = lib_base lib, base_y = sh - img_height (lib_base lib), base_x = 0,
          base_speed = 150, pipe_image = lib_pipes lib Green,
          pipes = [], pipe_spawn_timer = 0, pipe_spawn_interval = 1.25, pipe_gap = 100,
          bird_frames = fr, bird = Bird_init_mian fr (sw div 6, sh div 2),
          gravity = 1800, flap_impulse = 350, state = WELCOME, score = 0, high_score = 0,
          game_max_fall_speed = 600, rot_down_speed = 250\<rparr>)"

definition reset_mian :: "game_mian \<Rightarrow> game_mian" where
  "reset_mian g =
     (let fr = frames_of (lib_birds (sprites g) Yellow)
      in g\<lparr>background_key := (if background_key g = Day then Night else Day),
           base_x := 0, pipe_image := lib_pipes (sprites g) Green,
           pipes := [], pipe_spawn_timer := 0, bird_frames := fr,
           bird := Bird_init_mian fr (screen_width g div 6, screen_height g div 2),
           score := 0, state := WELCOME\<rparr>)"

definition min_center_mian :: "game_mian \<Rightarrow> int" where
  "min_center_mian g =
     int_of_float (real_of_int (screen_height g) * 0.25) + pipe_gap g div 2"

definition max_center_mian :: "game_mian \<Rightarrow> int" where
  "max_center_mian g = base_y g - 10 - pipe_gap g div 2"

text \<open>\<open>ticks\<close> is what \<^verbatim>\<open>pygame.time.get_ticks()\<close> returns, in milliseconds.\<close>

definition spawn_pipe_mian :: "int \<Rightarrow> nat \<Rightarrow> game_mian \<Rightarrow> py_error + game_mian" where
  "spawn_pipe_mian ticks r g =
     (case random_randint (min_center_mian g) (max_center_mian g) r of
        Inl e \<Rightarrow> Inl e
      | Inr base_center \<Rightarrow>
          (let t = real_of_int ticks / 1000.0;
               bias = int_of_float (20 * sin (t * 1.3));
               gap_center = max (min_center_mian g) (min (max_center_mian g) (base_center + bias))
           in Inr (g\<lparr>pipes := pipes g @
                     [PipePair_init (pipe_image g) (screen_width g + 10) gap_center
                        (pipe_gap g) (base_y g)]\<rparr>)))"

text \<open>
  The pixel masks of the sprites are not part of the model: \<open>over_top b p\<close> and
  \<open>over_bottom b p\<close> stand for what \<^verbatim>\<open>bird_mask.overlap\<close> answers for the top and
  the bottom piece of pipe \<open>p\<close>.
\<close>

fun hits_pipe_mian ::
  "(bird \<Rightarrow> pipe_pair \<Rightarrow> bool) \<Rightarrow> (bird \<Rightarrow> pipe_pair \<Rightarrow> bool) \<Rightarrow> bird \<Rightarrow> pipe_pair list \<Rightarrow> bool"
where
  "hits_pipe_mian over_top over_bottom b [] = False"
| "hits_pipe_mian over_top over_bottom b (pipe # rest) =
     (if over_top b pipe then True
      else if over_bottom b pipe then True
      else hits_pipe_mian over_top over_bottom b rest)"

definition check_collisions_mian ::
  "(bird \<Rightarrow> pipe_pair \<Rightarrow> bool) \<Rightarrow> (bird \<Rightarrow> pipe_pair \<Rightarrow> bool) \<Rightarrow> game_mian \<Rightarrow> py_error + bool"
where
  "check_collisions_mian over_top over_bottom g =
     (case Bird_rect_mian (bird g) of Inl e \<Rightarrow> Inl e
      | Inr bird_rect \<Rightarrow>
          Inr (if rect_bottom bird_rect \<ge> base_y g then True
               else hits_pipe_mian over_top over_bottom (bird g) (pipes g)))"

text \<open>
  The loop of \<^verbatim>\<open>update_score\<close> in \<^verbatim>\<open>mian.py\<close>: the bird's rectangle is asked for
  whenever a pipe is not yet passed.
\<close>

fun score_loop_mian ::
  "pipe_pair list \<Rightarrow> game_mian \<Rightarrow> py_error + pipe_pair list \<times> game_mian" where
  "score_loop_mian [] g = Inr ([], g)"
| "score_loop_mian (pipe # rest) g =
     (if passed pipe then
        (case score_loop_mian rest g of Inl e \<Rightarrow> Inl e
         | Inr (rest', g') \<Rightarrow> Inr (pipe # rest', g'))
      else
        (case Bird_rect_mian (bird g) of Inl e \<Rightarrow> Inl e
         | Inr bird_rect \<Rightarrow>
             if pipe_x pipe + real_of_int (PipePair_width pipe)
                  < real_of_int (rect_left bird_rect)
             then
               (let g1 = g\<lparr>score := score g + 1\<rparr>;
                    g2 = g1\<lparr>high_score := max (high_score g1) (score g1)\<rparr>
                in case score_loop_mian rest g2 of Inl e \<Rightarrow> Inl e
                   | Inr (rest', g') \<Rightarrow> Inr (pipe\<lparr>passed := True\<rparr> # rest', g'))
             else
               (case score_loop_mian rest g of Inl e \<Rightarrow> Inl e
                | Inr (rest', g') \<Rightarrow> Inr (pipe # rest', g'))))"

definition update_score_mian :: "game_mian \<Rightarrow> py_error + game_mian" where
  "update_score_mian g =
     (case score_loop_mian (pipes g) g of Inl e \<Rightarrow> Inl e
      | Inr (ps, g') \<Rightarrow> Inr (g'\<lparr>pipes := ps\<rparr>))"

definition on_confirm_mian :: "game_mian \<Rightarrow> game_mian" where
  "on_confirm_mian g =
     (case state g of
        WELCOME \<Rightarrow> g\<lparr>state := PLAYING\<rparr>
      | PLAYING \<Rightarrow> g\<lparr>bird := Bird_flap_mian (flap_impulse g) (bird g)\<rparr>
      | GAME_OVER \<Rightarrow> reset_mian g)"

definition handle_input_mian :: "event \<Rightarrow> game_mian \<Rightarrow> game_mian" where
  "handle_input_mian ev g =
     (case ev of
        KEYDOWN k \<Rightarrow> if k = K_SPACE \<or> k = K_UP then on_confirm_mian g else g
      | MOUSEBUTTONDOWN button \<Rightarrow> if button = 1 then on_confirm_mian g else g
      | _ \<Rightarrow> g)"

fun handle_events_mian :: "event list \<Rightarrow> bool \<times> game_mian \<Rightarrow> bool \<times> game_mian" where
  "handle_events_mian [] (running, g) = (running, g)"
| "handle_events_mian (ev # evs) (running, g) =
     (if ev = QUIT then handle_events_mian evs (False, g)
      else handle_events_mian evs (running, handle_input_mian ev g))"

text \<open>The welcome screen of \<^verbatim>\<open>mian.py\<close>: animation and an oscillation in time.\<close>

definition idle_mian :: "real \<Rightarrow> int \<Rightarrow> game_mian \<Rightarrow> py_error + game_mian" where
  "idle_mian dt ticks g =
     (case update_animation dt (bird g) of Inl e \<Rightarrow> Inl e
      | Inr b \<Rightarrow>
          Inr (g\<lparr>bird := b\<lparr>position_y :=
                              real_of_int (screen_height g div 2)
                                + 6 * sin (real_of_int ticks / 250.0),
                            rotation := 0\<rparr>\<rparr>))"

definition fly_mian :: "real \<Rightarrow> game_mian \<Rightarrow> py_error + game_mian" where
  "fly_mian dt g =
     (case Bird_update_mian dt (gravity g) (game_max_fall_speed g) (rot_down_speed g) (bird g) of
        Inl e \<Rightarrow> Inl e | Inr b \<Rightarrow> Inr (g\<lparr>bird := b\<rparr>))"

definition playing_motion_mian :: "real \<Rightarrow> int \<Rightarrow> nat \<Rightarrow> game_mian \<Rightarrow> py_error + game_mian" where
  "playing_motion_mian dt ticks r_center g =
     (let g1 = g\<lparr>pipe_spawn_timer := pipe_spawn_timer g + dt\<rparr>
      in case (if pipe_spawn_timer g1 \<ge> pipe_spawn_interval g1
               then spawn_pipe_mian ticks r_center (g1\<lparr>pipe_spawn_timer := 0\<rparr>) else Inr g1) of
           Inl e \<Rightarrow> Inl e
         | Inr g2 \<Rightarrow>
             Inr (g2\<lparr>pipes :=
                    filter (\<lambda>p. pipe_x p + real_of_int (PipePair_width p) > - 10)
                      (map (PipePair_update dt) (pipes g2))\<rparr>))"

definition playing_outcome_mian ::
  "(bird \<Rightarrow> pipe_pair \<Rightarrow> bool) \<Rightarrow> (bird \<Rightarrow> pipe_pair \<Rightarrow> bool) \<Rightarrow> game_mian \<Rightarrow> py_error + game_mian"
where
  "playing_outcome_mian over_top over_bottom g =
     (case check_collisions_mian over_top over_bottom g of Inl e \<Rightarrow> Inl e
      | Inr hit \<Rightarrow>
          update_score_mian
            (if hit then g\<lparr>state := GAME_OVER, bird := (bird g)\<lparr>dead := True\<rparr>\<rparr> else g))"

definition run_playing_mian ::
  "(bird \<Rightarrow> pipe_pair \<Rightarrow> bool) \<Rightarrow> (bird \<Rightarrow> pipe_pair \<Rightarrow> bool) \<Rightarrow>
   real \<Rightarrow> int \<Rightarrow> nat \<Rightarrow> game_mian \<Rightarrow> py_error + game_mian" where
  "run_playing_mian over_top over_bottom dt ticks r_center g =
     (case fly_mian dt (update_base dt g) of Inl e \<Rightarrow> Inl e
      | Inr g1 \<Rightarrow>
          (case playing_motion_mian dt ticks r_center g1 of Inl e \<Rightarrow> Inl e
           | Inr g2 \<Rightarrow> playing_outcome_mian over_top over_bottom g2))"

text \<open>
  The simulation part of one pass of the loop of \<^verbatim>\<open>mian.py\<close>. Its two
  \<^verbatim>\<open>if\<close> statements test the same, unchanged state, so they are one case
  distinction here.
\<close>

definition simulate_mian ::
  "(bird \<Rightarrow> pipe_pair \<Rightarrow> bool) \<Rightarrow> (bird \<Rightarrow> pipe_pair \<Rightarrow> bool) \<Rightarrow>
   real \<Rightarrow> int \<Rightarrow> nat \<Rightarrow> game_mian \<Rightarrow> py_error + game_mian" where
  "simulate_mian over_top over_bottom dt ticks r_center g =
     (case state g of
        WELCOME \<Rightarrow> idle_mian dt ticks (update_base dt g)
      | PLAYING \<Rightarrow> run_playing_mian over_top over_bottom dt ticks r_center g
      | GAME_OVER \<Rightarrow> fly_mian dt (update_base dt g))"

definition run_step_mian ::
  "(bird \<Rightarrow> pipe_pair \<Rightarrow> bool) \<Rightarrow> (bird \<Rightarrow> pipe_pair \<Rightarrow> bool) \<Rightarrow>
   int \<Rightarrow> int \<Rightarrow> event list \<Rightarrow> nat \<Rightarrow> game_mian \<Rightarrow> py_error + bool \<times> game_mian" where
  "run_step_mian over_top over_bottom dt_ms ticks evs r_center g =
     (let dt = real_of_int dt_ms / 1000.0 in
      case handle_events_mian evs (True, g) of
        (running, g1) \<Rightarrow>
          (case simulate_mian over_top over_bottom dt ticks r_center g1 of
             Inl e \<Rightarrow> Inl e
           | Inr g2 \<Rightarrow> Inr (running, g2)))"

section \<open>A concrete session\<close>

text \<open>
  The sprite sizes of the game's assets (a 288 by 512 background, a 336 by 112 base,
  34 by 24 birds, 52 by 320 pipes) and the sessions the two constructors build
  from them, with no high-score file: the inputs of the examples below.
\<close>

definition assets :: sprite_library where
  "assets =
     \<lparr>lib_backgrounds = (\<lambda>k. \<lparr>img_width = 288, img_height = 512\<rparr>),
      lib_base = \<lparr>img_width = 336, img_height = 112\<rparr>,
      lib_birds = (\<lambda>c. (\<lparr>img_width = 34, img_height = 24\<rparr>,
                         \<lparr>img_width = 34, img_height = 24\<rparr>,
                         \<lparr>img_width = 34, img_height = 24\<rparr>)),
      lib_pipes = (\<lambda>c. \<lparr>img_width = 52, img_height = 320\<rparr>)\<rparr>"

definition fresh :: game where
  "fresh = Game_init assets \<lparr>content = None, writable = True\<rparr> 0 0 0"

definition fresh_mian :: game_mian where
  "fresh_mian = Game_init_mian assets 0"

text \<open>
  A session in play with three pipes, two of them already left of the bird and
  not yet flagged.
\<close>

definition crossing_pair :: game where
  "crossing_pair =
     fresh\<lparr>state := PLAYING,
           pipes := [PipePair_init (pipe_image fresh) 10 250 140 400,
                     PipePair_init (pipe_image fresh) 15 250 140 400,
                     PipePair_init (pipe_image fresh) 200 250 140 400]\<rparr>"

text \<open>
  Sessions in play in which the bird, falling at terminal velocity, is one tick
  above the ground while a pipe is one tick from having passed it.
\<close>

definition landing :: game where
  "landing =
     fresh\<lparr>state := PLAYING,
           bird := (bird fresh)\<lparr>position_y := 374, velocity_y := 400\<rparr>,
           pipes := [PipePair_init (pipe_image fresh) 21 310 140 400]\<rparr>"

definition landing_mian :: game_mian where
  "landing_mian =
     fresh_mian\<lparr>state := PLAYING,
                bird := (bird fresh_mian)\<lparr>position_y := 370, velocity_y := 600\<rparr>,
                pipes := [PipePair_init (pipe_image fresh_mian) (- 3) 310 100 400]\<rparr>"

section \<open>Properties\<close>

subsection \<open>Decimal text\<close>

lemma is_digit_digit_char: "d < 10 \<Longrightarrow> is_digit (digit_char d)"
  by (simp add: is_digit_def digit_char_def)

lemma digit_val_digit_char: "d < 10 \<Longrightarrow> digit_val (digit_char d) = d"
  by (simp add: digit_val_def digit_char_def)

lemma not_space_digit_char: "d < 10 \<Longrightarrow> \<not> is_space (digit_char d)"
  by (simp add: is_space_def digit_char_def)

lemma str_nat_digits: "\<forall>c \<in> set (str_nat n). is_digit c"
proof (induction n rule: str_nat.induct)
  case (1 n)
  show ?case
  proof (cases "n < 10")
    case True
    then show ?thesis by (simp add: str_nat.simps [of n] is_digit_digit_char)
  next
    case False
    with 1 show ?thesis by (simp add: str_nat.simps [of n] is_digit_digit_char)
  qed
qed

lemma str_nat_not_Nil: "str_nat n \<noteq> []"
  by (subst str_nat.simps) simp

lemma parse_digits_snoc:
  "\<forall>c \<in> set cs. is_digit c \<Longrightarrow> is_digit d \<Longrightarrow>
   parse_digits (cs @ [d]) acc =
     map_option (\<lambda>v. v * 10 + digit_val d) (parse_digits cs acc)"
  by (induction cs arbitrary: acc) simp_all

lemma parse_digits_all_digits:
  "\<forall>c \<in> set cs. is_digit c \<Longrightarrow> \<exists>v. parse_digits cs acc = Some v"
  by (induction cs arbitrary: acc) simp_all

lemma parse_digits_str_nat: "parse_digits (str_nat n) 0 = Some n"
proof (induction n rule: str_nat.induct)
  case (1 n)
  show ?case
  proof (cases "n < 10")
    case True
    then show ?thesis
      by (simp add: str_nat.simps [of n] is_digit_digit_char digit_val_digit_char)
  next
    case False
    then have ih: "parse_digits (str_nat (n div 10)) 0 = Some (n div 10)"
      using 1 by simp
    have "parse_digits (str_nat (n div 10) @ [digit_char (n mod 10)]) 0 =
          map_option (\<lambda>v. v * 10 + digit_val (digit_char (n mod 10)))
            (parse_digits (str_nat (n div 10)) 0)"
      by (rule parse_digits_snoc) (simp_all add: str_nat_digits is_digit_digit_char)
    with ih False show ?thesis
      by (simp add: str_nat.simps [of n] digit_val_digit_char)
  qed
qed

lemma parse_unsigned_str_nat: "parse_unsigned (str_nat n) = Some n"
proof (cases "str_nat n")
  case Nil
  then show ?thesis by (simp add: str_nat_not_Nil)
next
  case (Cons d ds)
  have "is_digit d" using str_nat_digits [of n] Cons by simp
  with Cons parse_digits_str_nat [of n] show ?thesis
    by (simp add: parse_unsigned_def)
qed

lemma str_nat_no_space: "\<forall>c \<in> set (str_nat n). \<not> is_space c"
  using str_nat_digits [of n] by (auto simp: is_digit_def is_space_def)

lemma strip_no_space_ends:
  "s \<noteq> [] \<Longrightarrow> \<not> is_space (hd s) \<Longrightarrow> \<not> is_space (last s) \<Longrightarrow> strip s = s"
proof -
  assume ne: "s \<noteq> []" and h: "\<not> is_space (hd s)" and l: "\<not> is_space (last s)"
  from ne h have a: "dropWhile is_space s = s" by (cases s) simp_all
  from ne l have b: "dropWhile is_space (rev s) = rev s"
    by (cases "rev s") (simp_all add: last_rev [symmetric] hd_rev)
  show ?thesis by (simp add: strip_def a b)
qed

lemma strip_str_int: "strip (str_int n) = str_int n"
proof (rule strip_no_space_ends)
  show "str_int n \<noteq> []" by (simp add: str_int_def str_nat_not_Nil)
  show "\<not> is_space (hd (str_int n))"
    using str_nat_no_space [of "nat n"] str_nat_not_Nil [of "nat n"]
    by (auto simp: str_int_def is_space_def)
  show "\<not> is_space (last (str_int n))"
    using str_nat_no_space [of "nat n"] str_nat_no_space [of "nat (- n)"]
      str_nat_not_Nil [of "nat n"] str_nat_not_Nil [of "nat (- n)"]
    by (auto simp: str_int_def)
qed

lemma str_nat_hd_digit: "is_digit (hd (str_nat n))"
  using str_nat_digits [of n] str_nat_not_Nil [of n] by (cases "str_nat n") simp_all

lemma int_of_str_str_int: "int_of_str (str_int n) = Some n"
proof (cases "n < 0")
  case True
  then have "strip (CHR ''-'' # str_nat (nat (- n))) = CHR ''-'' # str_nat (nat (- n))"
    using strip_str_int [of n] by (simp add: str_int_def)
  with True show ?thesis
    by (simp add: int_of_str_def str_int_def parse_unsigned_str_nat)
next
  case False
  obtain d ds where ds: "str_nat (nat n) = d # ds"
    using str_nat_not_Nil [of "nat n"] by (cases "str_nat (nat n)") auto
  have dig: "is_digit d" using str_nat_hd_digit [of "nat n"] ds by simp
  then have "d \<noteq> CHR ''-''" and "d \<noteq> CHR ''+''" by (auto simp: is_digit_def)
  moreover have "strip (str_nat (nat n)) = d # ds"
    using strip_str_int [of n] False ds by (simp add: str_int_def)
  moreover have "parse_unsigned (d # ds) = Some (nat n)"
    using parse_unsigned_str_nat [of "nat n"] ds by simp
  ultimately show ?thesis using False
    by (simp add: int_of_str_def str_int_def)
qed

subsection \<open>The high-score file\<close>

text \<open>
  C7. Saving the high score to a writable store and loading it again returns the
  same number: the file then holds the decimal text of the number, and loading
  parses it back. Loading gives 0 when the file is missing and when its text is
  not an integer literal. (The round trip holds for every integer, so for every
  non-negative one.)
\<close>

theorem high_score_round_trip:
  "(writable (highscore_file g) \<longrightarrow>
      content (highscore_file (save_high_score g)) = Some (str_int (high_score g))
      \<and> load_high_score (highscore_file (save_high_score g)) = high_score g)
   \<and> (content st = None \<longrightarrow> load_high_score st = 0)
   \<and> (\<forall>s. content st = Some s \<and> int_of_str (strip s) = None \<longrightarrow> load_high_score st = 0)"
  by (simp add: save_high_score_def write_high_score_def load_high_score_def
      strip_str_int int_of_str_str_int)

theorem high_score_round_trip_witness:
  "load_high_score (highscore_file (save_high_score (fresh\<lparr>high_score := 42\<rparr>))) = 42
   \<and> load_high_score \<lparr>content = None, writable = True\<rparr> = 0
   \<and> load_high_score \<lparr>content = Some ''4x2'', writable = True\<rparr> = 0"
proof -
  have w: "writable (highscore_file (fresh\<lparr>high_score := 42\<rparr>))"
    by (simp add: fresh_def Game_init_def Let_def)
  have c: "content \<lparr>content = Some ''4x2'', writable = True\<rparr> = Some ''4x2''
     \<and> int_of_str (strip ''4x2'') = None"
    by (simp add: int_of_str_def strip_def is_space_def parse_unsigned_def is_digit_def
        digit_val_def)
  from high_score_round_trip [of "fresh\<lparr>high_score := 42\<rparr>" "\<lparr>content = None, writable = True\<rparr>"]
    high_score_round_trip [of fresh "\<lparr>content = Some ''4x2'', writable = True\<rparr>"] w c
  show ?thesis by simp
qed

subsection \<open>The bird\<close>

lemma animate_more: "animate dt b = Inr b' \<Longrightarrow> bird.more b' = bird.more b"
  by (auto simp: animate_def update_animation_def Let_def split: if_splits)

lemma animate_total: "frames b \<noteq> [] \<Longrightarrow> \<exists>b'. animate dt b = Inr b'"
  by (simp add: animate_def update_animation_def Let_def)

lemma bird_fresh: "bird fresh = Bird_init (frames_of (lib_birds assets Yellow)) (72, 256)"
  by (simp add: fresh_def Game_init_def Let_def random_choice_def assets_def)

lemma bird_fresh_mian:
  "bird fresh_mian = Bird_init_mian (frames_of (lib_birds assets Yellow)) (48, 256)"
  by (simp add: fresh_mian_def Game_init_mian_def Let_def random_choice_def assets_def)

text \<open>
  C3. Whatever the bird's state before (so after any earlier ticks and flaps),
  whatever \<open>dt\<close> and whatever gravity (the death drop's 1.5 times included), the
  velocity after \<^verbatim>\<open>Bird.update\<close> in playing mode is at most the terminal
  velocity, in \<^verbatim>\<open>main1.py\<close> (where it is a field of the bird, which the update
  leaves as it was) and in \<^verbatim>\<open>mian.py\<close> (where it is an argument). The update
  returns whenever the bird has a frame.
\<close>

theorem velocity_capped:
  "(\<forall>b'. Bird_update dt gr rs True b = Inr b' \<longrightarrow>
      velocity_y b' \<le> max_fall_speed b' \<and> max_fall_speed b' = max_fall_speed b)
   \<and> (\<forall>m'. Bird_update_mian dt gr mf rd m = Inr m' \<longrightarrow> velocity_y m' \<le> mf)
   \<and> (frames b \<noteq> [] \<longrightarrow> (\<exists>b'. Bird_update dt gr rs True b = Inr b'))
   \<and> (frames m \<noteq> [] \<longrightarrow> (\<exists>m'. Bird_update_mian dt gr mf rd m = Inr m'))"
proof (intro conjI allI impI)
  fix b' assume "Bird_update dt gr rs True b = Inr b'"
  then obtain b1 where a: "animate dt b = Inr b1"
    and b': "b' = integrate dt gr rs True b1"
    by (auto simp: Bird_update_def split: sum.splits)
  have "max_fall_speed b1 = max_fall_speed b"
    using animate_more [OF a] by (cases b, cases b1) simp
  then show "velocity_y b' \<le> max_fall_speed b'" "max_fall_speed b' = max_fall_speed b"
    by (simp_all add: b' integrate_def Let_def)
next
  fix m' assume "Bird_update_mian dt gr mf rd m = Inr m'"
  then show "velocity_y m' \<le> mf"
    by (auto simp: Bird_update_mian_def integrate_mian_def Let_def split: sum.splits)
next
  assume "frames b \<noteq> []"
  from animate_total [OF this, of dt] show "\<exists>b'. Bird_update dt gr rs True b = Inr b'"
    by (auto simp: Bird_update_def)
next
  assume "frames m \<noteq> []"
  from animate_total [OF this, of dt] show "\<exists>m'. Bird_update_mian dt gr mf rd m = Inr m'"
    by (auto simp: Bird_update_mian_def)
qed

theorem velocity_capped_witness:
  "(\<exists>b'. Bird_update 1 700 8 True (bird fresh) = Inr b' \<and> velocity_y b' \<le> 400)
   \<and> (\<exists>m'. Bird_update_mian 1 1800 600 250 (bird fresh_mian) = Inr m' \<and> velocity_y m' \<le> 600)"
proof -
  have f: "frames (bird fresh) \<noteq> []" and v: "max_fall_speed (bird fresh) = 400"
    by (simp_all add: bird_fresh Bird_init_def frames_of_def assets_def)
  have fm: "frames (bird fresh_mian) \<noteq> []"
    by (simp add: bird_fresh_mian Bird_init_mian_def frames_of_def assets_def)
  from velocity_capped [where dt = 1 and gr = 700 and rs = 8 and b = "bird fresh"
      and mf = 600 and rd = 250 and m = "bird fresh_mian"]
    velocity_capped [where dt = 1 and gr = 1800 and rs = 8 and b = "bird fresh"
      and mf = 600 and rd = 250 and m = "bird fresh_mian"] f v fm
  show ?thesis by auto
qed

text \<open>
  C4, as the code has it. \<^verbatim>\<open>Bird.flap\<close> on a living bird sets the velocity to
  minus the impulse; in \<^verbatim>\<open>main1.py\<close> it changes no other field, in \<^verbatim>\<open>mian.py\<close> it
  also sets the rotation to 45 and changes no field but these two. On a dead bird
  it changes nothing, in both files.
\<close>

theorem flap_effect:
  "(\<not> dead b \<longrightarrow>
      velocity_y (Bird_flap i b) = - i \<and> (Bird_flap i b)\<lparr>velocity_y := velocity_y b\<rparr> = b)
   \<and> (dead b \<longrightarrow> Bird_flap i b = b)
   \<and> (\<not> dead m \<longrightarrow>
      velocity_y (Bird_flap_mian i m) = - i \<and> rotation (Bird_flap_mian i m) = 45
      \<and> (Bird_flap_mian i m)\<lparr>velocity_y := velocity_y m, rotation := rotation m\<rparr> = m)
   \<and> (dead m \<longrightarrow> Bird_flap_mian i m = m)"
  by (simp add: Bird_flap_def Bird_flap_mian_def)

theorem flap_effect_witness:
  "velocity_y (Bird_flap 280 (bird fresh)) = - 280
   \<and> (Bird_flap 280 (bird fresh))\<lparr>velocity_y := velocity_y (bird fresh)\<rparr> = bird fresh
   \<and> Bird_flap 280 ((bird fresh)\<lparr>dead := True\<rparr>) = (bird fresh)\<lparr>dead := True\<rparr>
   \<and> velocity_y (Bird_flap_mian 350 (bird fresh_mian)) = - 350
   \<and> rotation (Bird_flap_mian 350 (bird fresh_mian)) = 45
   \<and> Bird_flap_mian 350 ((bird fresh_mian)\<lparr>dead := True\<rparr>) = (bird fresh_mian)\<lparr>dead := True\<rparr>"
proof -
  have a: "\<not> dead (bird fresh)" "\<not> dead (bird fresh_mian)"
    by (simp_all add: bird_fresh bird_fresh_mian Bird_init_def Bird_init_mian_def)
  have d: "dead ((bird fresh)\<lparr>dead := True\<rparr>)" "dead ((bird fresh_mian)\<lparr>dead := True\<rparr>)"
    by simp_all
  from flap_effect [of "bird fresh" 280 "bird fresh_mian"]
    flap_effect [of "(bird fresh)\<lparr>dead := True\<rparr>" 280 "bird fresh_mian"]
    flap_effect [of "bird fresh" 350 "bird fresh_mian"]
    flap_effect [of "bird fresh" 350 "(bird fresh_mian)\<lparr>dead := True\<rparr>"] a d
  show ?thesis by simp
qed

text \<open>
  The claim as written fails in \<^verbatim>\<open>mian.py\<close>: the living bird of a new session has
  rotation 0, and a flap turns it to 45.
\<close>

theorem flap_rotation_counterexample:
  "\<not> dead (bird fresh_mian)
   \<and> rotation (Bird_flap_mian 350 (bird fresh_mian)) \<noteq> rotation (bird fresh_mian)"
  by (simp add: bird_fresh_mian Bird_init_mian_def Bird_flap_mian_def)

lemma integrate_animation:
  "animation_index (integrate dt gr rs pl b) = animation_index b"
  "animation_timer (integrate dt gr rs pl b) = animation_timer b"
  by (simp_all add: integrate_def Let_def)

lemma integrate_mian_animation:
  "animation_index (integrate_mian dt gr mf rd b) = animation_index b"
  "animation_timer (integrate_mian dt gr mf rd b) = animation_timer b"
  by (simp_all add: integrate_mian_def Let_def)

text \<open>
  C8, as the code has it. While the bird lives and has its three frames, an update
  that brings the timer to the interval restarts the timer and moves the index to
  the next of the phases 0, 1, 2; an update that does not only advances the
  timer. When the bird is dead the index is set to 1 on every update and the timer
  stands still: there is no second phase. The same in both files.
\<close>

theorem animation_advance:
  "(\<not> dead b \<and> length (frames b) = 3 \<and> animation_interval b \<le> animation_timer b + dt \<longrightarrow>
      (\<exists>b'. Bird_update dt gr rs pl b = Inr b'
         \<and> animation_index b' = (animation_index b + 1) mod 3 \<and> animation_timer b' = 0))
   \<and> (\<not> dead b \<and> animation_timer b + dt < animation_interval b \<longrightarrow>
      (\<exists>b'. Bird_update dt gr rs pl b = Inr b'
         \<and> animation_index b' = animation_index b \<and> animation_timer b' = animation_timer b + dt))
   \<and> (dead b \<longrightarrow>
      (\<exists>b'. Bird_update dt gr rs pl b = Inr b'
         \<and> animation_index b' = 1 \<and> animation_timer b' = animation_timer b))
   \<and> (\<not> dead m \<and> length (frames m) = 3 \<and> animation_interval m \<le> animation_timer m + dt \<longrightarrow>
      (\<exists>m'. Bird_update_mian dt gr mf rd m = Inr m'
         \<and> animation_index m' = (animation_index m + 1) mod 3 \<and> animation_timer m' = 0))
   \<and> (\<not> dead m \<and> animation_timer m + dt < animation_interval m \<longrightarrow>
      (\<exists>m'. Bird_update_mian dt gr mf rd m = Inr m'
         \<and> animation_index m' = animation_index m \<and> animation_timer m' = animation_timer m + dt))
   \<and> (dead m \<longrightarrow>
      (\<exists>m'. Bird_update_mian dt gr mf rd m = Inr m'
         \<and> animation_index m' = 1 \<and> animation_timer m' = animation_timer m))"
  by (auto simp: Bird_update_def Bird_update_mian_def animate_def update_animation_def Let_def
      integrate_animation integrate_mian_animation)

theorem animation_advance_witness:
  "(\<exists>b'. Bird_update (1 / 10) 700 8 True (bird fresh) = Inr b'
       \<and> animation_index b' = 1 \<and> animation_timer b' = 0)
   \<and> (\<exists>b'. Bird_update (1 / 100) 700 8 True (bird fresh) = Inr b'
       \<and> animation_index b' = 0 \<and> animation_timer b' = 1 / 100)
   \<and> (\<exists>b'. Bird_update (1 / 10) 700 8 True ((bird fresh)\<lparr>dead := True\<rparr>) = Inr b'
       \<and> animation_index b' = 1 \<and> animation_timer b' = 0)
   \<and> (\<exists>m'. Bird_update_mian (1 / 10) 1800 600 250 (bird fresh_mian) = Inr m'
       \<and> animation_index m' = 1 \<and> animation_timer m' = 0)
   \<and> (\<exists>m'. Bird_update_mian (1 / 10) 1800 600 250 ((bird fresh_mian)\<lparr>dead := True\<rparr>) = Inr m'
       \<and> animation_index m' = 1 \<and> animation_timer m' = 0)"
proof -
  have b: "\<not> dead (bird fresh)" "length (frames (bird fresh)) = 3"
    "animation_index (bird fresh) = 0" "animation_timer (bird fresh) = 0"
    "animation_interval (bird fresh) = 8 / 100"
    by (simp_all add: bird_fresh Bird_init_def frames_of_def assets_def)
  have m: "\<not> dead (bird fresh_mian)" "length (frames (bird fresh_mian)) = 3"
    "animation_index (bird fresh_mian) = 0" "animation_timer (bird fresh_mian) = 0"
    "animation_interval (bird fresh_mian) = 8 / 100"
    by (simp_all add: bird_fresh_mian Bird_init_mian_def frames_of_def assets_def)
  from animation_advance [where b = "bird fresh" and dt = "1 / 10" and gr = 700 and rs = 8
      and pl = True and m = "bird fresh_mian" and mf = 600 and rd = 250]
    animation_advance [where b = "bird fresh" and dt = "1 / 100" and gr = 700 and rs = 8
      and pl = True and m = "bird fresh_mian" and mf = 600 and rd = 250]
    animation_advance [where b = "(bird fresh)\<lparr>dead := True\<rparr>" and dt = "1 / 10" and gr = 700
      and rs = 8 and pl = True and m = "(bird fresh_mian)\<lparr>dead := True\<rparr>" and mf = 600
      and rd = 250]
    animation_advance [where b = "bird fresh" and dt = "1 / 10" and gr = 1800 and rs = 8
      and pl = True and m = "bird fresh_mian" and mf = 600 and rd = 250]
    animation_advance [where b = "(bird fresh)\<lparr>dead := True\<rparr>" and dt = "1 / 10" and gr = 1800
      and rs = 8 and pl = True and m = "(bird fresh_mian)\<lparr>dead := True\<rparr>" and mf = 600
      and rd = 250]
    b m
  show ?thesis by simp
qed

text \<open>
  The claim as written fails for the dead bird: with the index at 1 and the
  interval elapsed, the update leaves the index at 1 instead of moving it to the
  other of two phases.
\<close>

theorem dead_animation_counterexample:
  "dead ((bird fresh)\<lparr>dead := True, animation_index := 1\<rparr>)
   \<and> animation_interval ((bird fresh)\<lparr>dead := True, animation_index := 1\<rparr>)
       \<le> animation_timer ((bird fresh)\<lparr>dead := True, animation_index := 1\<rparr>) + 1
   \<and> Bird_update 1 700 8 True ((bird fresh)\<lparr>dead := True, animation_index := 1\<rparr>)
       = Inr (integrate 1 700 8 True ((bird fresh)\<lparr>dead := True, animation_index := 1\<rparr>))
   \<and> animation_index (integrate 1 700 8 True ((bird fresh)\<lparr>dead := True, animation_index := 1\<rparr>))
       = animation_index ((bird fresh)\<lparr>dead := True, animation_index := 1\<rparr>)"
  by (simp add: bird_fresh Bird_init_def Bird_update_def animate_def integrate_animation)

subsection \<open>The score\<close>


lemma save_high_score_fields:
  "score (save_high_score g) = score g" "high_score (save_high_score g) = high_score g"
  "bird (save_high_score g) = bird g" "state (save_high_score g) = state g"
  by (simp_all add: save_high_score_def)

lemma score_loop_pipes:
  "score_loop ps g = (ps', g') \<Longrightarrow> position_x (bird g) = bx \<Longrightarrow>
   ps' = map (\<lambda>p. if crosses bx p then p\<lparr>passed := True\<rparr> else p) ps"
proof (induction ps arbitrary: g ps' g')
  case Nil
  then show ?case by simp
next
  case (Cons p ps)
  show ?case
  proof (cases "crosses bx p")
    case True
    then show ?thesis using Cons.prems Cons.IH
      by (auto simp: Let_def crosses_def save_high_score_fields split: prod.splits if_splits)
  next
    case False
    then show ?thesis using Cons.prems Cons.IH
      by (auto simp: Let_def crosses_def split: prod.splits if_splits)
  qed
qed

lemma score_loop_score:
  "score_loop ps g = (ps', g') \<Longrightarrow> position_x (bird g) = bx \<Longrightarrow>
   score g' = score g + int (length (filter (crosses bx) ps))"
proof (induction ps arbitrary: g ps' g')
  case Nil
  then show ?case by simp
next
  case (Cons p ps)
  show ?case
  proof (cases "crosses bx p")
    case True
    then show ?thesis using Cons.prems Cons.IH
      by (auto simp: Let_def crosses_def save_high_score_fields split: prod.splits if_splits)
  next
    case False
    then show ?thesis using Cons.prems Cons.IH
      by (auto simp: Let_def crosses_def split: prod.splits if_splits)
  qed
qed

lemma score_loop_best:
  "score_loop ps g = (ps', g') \<Longrightarrow> score g \<le> high_score g \<Longrightarrow> score g' \<le> high_score g'"
proof (induction ps arbitrary: g ps' g')
  case Nil
  then show ?case by simp
next
  case (Cons p ps)
  show ?case
  proof (cases "crosses (position_x (bird g)) p")
    case True
    then show ?thesis using Cons.prems Cons.IH
      by (auto simp: Let_def crosses_def save_high_score_fields split: prod.splits if_splits)
  next
    case False
    then show ?thesis using Cons.prems Cons.IH
      by (auto simp: Let_def crosses_def split: prod.splits if_splits)
  qed
qed

lemma score_loop_frame:
  "score_loop ps g = (ps', g') \<Longrightarrow>
   \<exists>s h f. g' = g\<lparr>score := s, high_score := h, highscore_file := f\<rparr>"
proof (induction ps arbitrary: g ps' g')
  case Nil
  have "g = g\<lparr>score := score g, high_score := high_score g, highscore_file := highscore_file g\<rparr>"
    by simp
  with Nil show ?case by (metis score_loop.simps(1) prod.inject)
next
  case (Cons p ps)
  obtain rest gn where r: "score_loop ps gn = (rest, g')"
    and gn: "gn = g \<or> gn = g\<lparr>score := score g + 1\<rparr>
       \<or> gn = save_high_score (g\<lparr>score := score g + 1, high_score := score g + 1\<rparr>)"
    using Cons.prems by (auto simp: Let_def split: prod.splits if_splits)
  from Cons.IH [OF r] obtain s h f
    where g': "g' = gn\<lparr>score := s, high_score := h, highscore_file := f\<rparr>" by blast
  from gn have "g' = g\<lparr>score := s, high_score := h, highscore_file := f\<rparr>"
    by (auto simp: g' save_high_score_def)
  then show ?case by blast
qed

lemma update_score_frame:
  "update_score g = g\<lparr>pipes := pipes (update_score g), score := score (update_score g),
     high_score := high_score (update_score g),
     highscore_file := highscore_file (update_score g)\<rparr>"
proof -
  obtain ps g' where l: "score_loop (pipes g) g = (ps, g')" by (cases "score_loop (pipes g) g")
  from score_loop_frame [OF l] obtain s h f
    where "g' = g\<lparr>score := s, high_score := h, highscore_file := f\<rparr>" by blast
  then show ?thesis by (simp add: update_score_def l)
qed

lemma update_score_unchanged:
  "state (update_score g) = state g" "bird (update_score g) = bird g"
  "screen_height (update_score g) = screen_height g" "base_y (update_score g) = base_y g"
  "base_pipe_gap (update_score g) = base_pipe_gap g"
  "min_pipe_gap (update_score g) = min_pipe_gap g"
  "gap_decrease_rate (update_score g) = gap_decrease_rate g"
  by (subst update_score_frame, simp)+

lemma update_score_pipes:
  "pipes (update_score g) =
     map (\<lambda>p. if crosses (position_x (bird g)) p then p\<lparr>passed := True\<rparr> else p) (pipes g)"
proof -
  obtain ps g' where l: "score_loop (pipes g) g = (ps, g')" by (cases "score_loop (pipes g) g")
  from score_loop_pipes [OF l refl] show ?thesis by (simp add: update_score_def l)
qed

lemma update_score_score:
  "score (update_score g) =
     score g + int (length (filter (crosses (position_x (bird g))) (pipes g)))"
proof -
  obtain ps g' where l: "score_loop (pipes g) g = (ps, g')" by (cases "score_loop (pipes g) g")
  from score_loop_score [OF l refl] show ?thesis by (simp add: update_score_def l)
qed

lemma update_score_best:
  "score g \<le> high_score g \<Longrightarrow> score (update_score g) \<le> high_score (update_score g)"
proof -
  assume a: "score g \<le> high_score g"
  obtain ps g' where l: "score_loop (pipes g) g = (ps, g')" by (cases "score_loop (pipes g) g")
  from score_loop_best [OF l a] show ?thesis by (simp add: update_score_def l)
qed





lemma Bird_rect_mian_left:
  "frames b \<noteq> [] \<Longrightarrow> \<exists>r. Bird_rect_mian b = Inr r \<and> rect_left r = position_x b"
  by (simp add: Bird_rect_mian_def Bird_image_def Rect_def)

lemma score_loop_mian_eq:
  "frames (bird m) \<noteq> [] \<Longrightarrow> position_x (bird m) = bx \<Longrightarrow>
   score_loop_mian ps m =
     Inr (map (\<lambda>p. if crosses bx p then p\<lparr>passed := True\<rparr> else p) ps,
          m\<lparr>score := score m + int (length (filter (crosses bx) ps)),
            high_score :=
              (if filter (crosses bx) ps = [] then high_score m
               else max (high_score m) (score m + int (length (filter (crosses bx) ps))))\<rparr>)"
proof (induction ps arbitrary: m)
  case Nil
  then show ?case by simp
next
  case (Cons p ps)
  from Bird_rect_mian_left [OF Cons.prems(1)] Cons.prems(2)
  obtain r where r: "Bird_rect_mian (bird m) = Inr r" "rect_left r = bx" by auto
  show ?case
  proof (cases "crosses bx p")
    case False
    then have "passed p \<or> \<not> pipe_x p + real_of_int (PipePair_width p) < real_of_int bx"
      by (simp add: crosses_def)
    then show ?thesis using Cons.IH [OF Cons.prems] r False
      by auto
  next
    case True
    then have c: "\<not> passed p" "pipe_x p + real_of_int (PipePair_width p) < real_of_int bx"
      by (simp_all add: crosses_def)
    define m2 where "m2 = m\<lparr>score := score m + 1,
      high_score := max (high_score m) (score m + 1)\<rparr>"
    have f2: "frames (bird m2) \<noteq> []" and b2: "position_x (bird m2) = bx"
      using Cons.prems by (simp_all add: m2_def)
    from Cons.IH [OF f2 b2] True r c show ?thesis
      by (auto simp: m2_def Let_def max_def)
  qed
qed

lemma update_score_mian_eq:
  "frames (bird m) \<noteq> [] \<Longrightarrow>
   update_score_mian m =
     Inr (m\<lparr>score := score m + int (length (filter (crosses (position_x (bird m))) (pipes m))),
            high_score :=
              (if filter (crosses (position_x (bird m))) (pipes m) = [] then high_score m
               else max (high_score m)
                 (score m + int (length (filter (crosses (position_x (bird m))) (pipes m))))),
            pipes := map (\<lambda>p. if crosses (position_x (bird m)) p then p\<lparr>passed := True\<rparr> else p)
                       (pipes m)\<rparr>)"
  by (simp add: update_score_mian_def score_loop_mian_eq [OF _ refl])

lemma score_loop_mian_best:
  "score_loop_mian ps m = Inr (ps', m') \<Longrightarrow> score m \<le> high_score m \<Longrightarrow>
   score m' \<le> high_score m'"
proof (induction ps arbitrary: m ps' m')
  case Nil
  then show ?case by simp
next
  case (Cons p ps)
  show ?case
  proof (cases "passed p")
    case True
    then show ?thesis using Cons.prems Cons.IH
      by (auto split: sum.splits prod.splits)
  next
    case False
    then show ?thesis using Cons.prems Cons.IH
      by (auto simp: Let_def split: sum.splits prod.splits if_splits)
  qed
qed

text \<open>
  C6. If the high score is at least the score before \<^verbatim>\<open>update_score\<close>, it is at
  least the score after it, in \<^verbatim>\<open>main1.py\<close> and in \<^verbatim>\<open>mian.py\<close> (whose
  \<^verbatim>\<open>update_score\<close> returns whenever the bird has a frame). A new session starts
  with score 0 and the loaded high score.
\<close>

theorem best_at_least_current:
  "(score g \<le> high_score g \<longrightarrow> score (update_score g) \<le> high_score (update_score g))
   \<and> (\<forall>m'. score m \<le> high_score m \<and> update_score_mian m = Inr m' \<longrightarrow>
         score m' \<le> high_score m')
   \<and> (frames (bird m) \<noteq> [] \<longrightarrow> (\<exists>m'. update_score_mian m = Inr m'))
   \<and> score (Game_init lib st r1 r2 r3) = 0
   \<and> high_score (Game_init lib st r1 r2 r3) = load_high_score st"
proof (intro conjI allI impI)
  fix m' assume a: "score m \<le> high_score m \<and> update_score_mian m = Inr m'"
  then obtain ps m1 where l: "score_loop_mian (pipes m) m = Inr (ps, m1)"
    and m': "m' = m1\<lparr>pipes := ps\<rparr>"
    by (auto simp: update_score_mian_def split: sum.splits prod.splits)
  from score_loop_mian_best [OF l] a show "score m' \<le> high_score m'" by (simp add: m')
next
  assume "frames (bird m) \<noteq> []"
  then show "\<exists>m'. update_score_mian m = Inr m'" by (simp add: update_score_mian_eq)
qed (simp_all add: update_score_best Game_init_def Let_def)

lemma crossing_pair_fields:
  "position_x (bird crossing_pair) = 72" "score crossing_pair = 0"
  "high_score crossing_pair = 0"
  "pipes crossing_pair =
     [PipePair_init \<lparr>img_width = 52, img_height = 320\<rparr> 10 250 140 400,
      PipePair_init \<lparr>img_width = 52, img_height = 320\<rparr> 15 250 140 400,
      PipePair_init \<lparr>img_width = 52, img_height = 320\<rparr> 200 250 140 400]"
  by (simp_all add: crossing_pair_def fresh_def Game_init_def Let_def random_choice_def
      assets_def Bird_init_def load_high_score_def)

lemma crosses_examples:
  "crosses 72 (PipePair_init \<lparr>img_width = 52, img_height = 320\<rparr> 10 250 140 400)"
  "crosses 72 (PipePair_init \<lparr>img_width = 52, img_height = 320\<rparr> 15 250 140 400)"
  "\<not> crosses 72 (PipePair_init \<lparr>img_width = 52, img_height = 320\<rparr> 200 250 140 400)"
  by (simp_all add: crosses_def PipePair_init_def PipePair_width_def)

theorem best_at_least_current_witness:
  "score crossing_pair \<le> high_score crossing_pair
   \<and> score (update_score crossing_pair) \<le> high_score (update_score crossing_pair)
   \<and> (\<exists>m'. update_score_mian landing_mian = Inr m' \<and> score m' \<le> high_score m')"
proof -
  have a: "score crossing_pair \<le> high_score crossing_pair"
    by (simp add: crossing_pair_fields)
  have b: "score landing_mian \<le> high_score landing_mian" "frames (bird landing_mian) \<noteq> []"
    by (simp_all add: landing_mian_def fresh_mian_def Game_init_mian_def Let_def
        Bird_init_mian_def frames_of_def assets_def)
  from best_at_least_current [where g = crossing_pair and m = landing_mian and lib = assets
      and st = "\<lparr>content = None, writable = True\<rparr>" and ?r1.0 = 0 and ?r2.0 = 0 and ?r3.0 = 0]
    a b show ?thesis by auto
qed

subsection \<open>The spawner\<close>


lemma random_randint_range:
  "random_randint a b r = Inr c \<Longrightarrow> a \<le> c \<and> c \<le> b"
proof -
  assume h: "random_randint a b r = Inr c"
  then have ab: "a \<le> b" and c: "c = a + int (r mod nat (b - a + 1))"
    by (auto simp: random_randint_def split: if_splits)
  have "r mod nat (b - a + 1) < nat (b - a + 1)" using ab by simp
  then have "int (r mod nat (b - a + 1)) < b - a + 1" using ab by linarith
  with c show ?thesis by simp
qed

lemma random_randint_total: "(\<exists>c. random_randint a b r = Inr c) \<longleftrightarrow> a \<le> b"
  by (auto simp: random_randint_def)

lemma random_randint_error: "b < a \<Longrightarrow> random_randint a b r = Inl ValueError"
  by (simp add: random_randint_def)

lemma c_div_examples: "c_div (- 4) 2 = - 2" "c_div 0 2 = 0" "c_div (- 8) 2 = - 4"
  by (simp_all add: c_div_def)

lemma PipePair_rects_gap:
  "rect_bottom (fst (PipePair_rects p)) = gap_y p - gap_size p div 2"
  "rect_top (snd (PipePair_rects p)) = gap_y p + gap_size p div 2"
  "rect_bottom (fst (PipePair_rects_mian p)) = gap_y p - gap_size p div 2"
  "rect_top (snd (PipePair_rects_mian p)) = gap_y p + gap_size p div 2"
  by (simp_all add: PipePair_rects_def PipePair_rects_mian_def Let_def Rect_def rect_bottom_def
      inflate_ip_def c_div_examples)

text \<open>
  C2. Every pipe that \<^verbatim>\<open>spawn_pipe\<close> appends, whatever the score, has a gap of
  at least the minimal size (in \<^verbatim>\<open>main1.py\<close>, where the gap is the maximum of
  \<^verbatim>\<open>min_pipe_gap\<close> and the base gap less 5 for every \<^verbatim>\<open>gap_decrease_rate\<close>
  points; \<^verbatim>\<open>mian.py\<close> has the one fixed gap), and its gap, from the centre less
  half the size to the centre plus half the size, lies between a quarter of the
  screen height and the ground less the margin (20 in \<^verbatim>\<open>main1.py\<close>, 10 in
  \<^verbatim>\<open>mian.py\<close>). Half the size is the integer half that \<^verbatim>\<open>PipePair.rects\<close>
  computes: the two ends of the gap are the bottom of the top piece and the top of
  the bottom piece.
\<close>

theorem spawned_gap_in_bounds:
  "(\<forall>g'. spawn_pipe r g = Inr g' \<longrightarrow>
      (\<exists>p. pipes g' = pipes g @ [p]
         \<and> gap_size p =
             max (min_pipe_gap g) (base_pipe_gap g - (score g div gap_decrease_rate g) * 5)
         \<and> min_pipe_gap g \<le> gap_size p
         \<and> int_of_float (real_of_int (screen_height g) * 0.25) \<le> gap_y p - gap_size p div 2
         \<and> gap_y p + gap_size p div 2 \<le> base_y g - 20
         \<and> rect_bottom (fst (PipePair_rects p)) = gap_y p - gap_size p div 2
         \<and> rect_top (snd (PipePair_rects p)) = gap_y p + gap_size p div 2))
   \<and> (\<forall>m'. spawn_pipe_mian ticks r m = Inr m' \<longrightarrow>
      (\<exists>p. pipes m' = pipes m @ [p]
         \<and> gap_size p = pipe_gap m
         \<and> int_of_float (real_of_int (screen_height m) * 0.25) \<le> gap_y p - gap_size p div 2
         \<and> gap_y p + gap_size p div 2 \<le> base_y m - 10
         \<and> rect_bottom (fst (PipePair_rects_mian p)) = gap_y p - gap_size p div 2
         \<and> rect_top (snd (PipePair_rects_mian p)) = gap_y p + gap_size p div 2))"
proof (intro conjI allI impI)
  fix g' assume "spawn_pipe r g = Inr g'"
  then obtain c where c: "random_randint (min_center g) (max_center g) r = Inr c"
    and g': "g' = g\<lparr>pipes := pipes g @
       [PipePair_init (pipe_image g) (screen_width g + 10) c (current_gap g) (base_y g)]\<rparr>"
    by (auto simp: spawn_pipe_def split: if_splits sum.splits)
  from random_randint_range [OF c] have "min_center g \<le> c" "c \<le> max_center g" by simp_all
  then show "\<exists>p. pipes g' = pipes g @ [p]
         \<and> gap_size p =
             max (min_pipe_gap g) (base_pipe_gap g - (score g div gap_decrease_rate g) * 5)
         \<and> min_pipe_gap g \<le> gap_size p
         \<and> int_of_float (real_of_int (screen_height g) * 0.25) \<le> gap_y p - gap_size p div 2
         \<and> gap_y p + gap_size p div 2 \<le> base_y g - 20
         \<and> rect_bottom (fst (PipePair_rects p)) = gap_y p - gap_size p div 2
         \<and> rect_top (snd (PipePair_rects p)) = gap_y p + gap_size p div 2"
    by (simp add: g' PipePair_rects_gap) (simp add: PipePair_init_def min_center_def
        max_center_def current_gap_def)
next
  fix m' assume "spawn_pipe_mian ticks r m = Inr m'"
  then obtain c where c: "random_randint (min_center_mian m) (max_center_mian m) r = Inr c"
    and m': "m' = m\<lparr>pipes := pipes m @
       [PipePair_init (pipe_image m) (screen_width m + 10)
          (max (min_center_mian m) (min (max_center_mian m)
             (c + int_of_float (20 * sin (real_of_int ticks / 1000.0 * 1.3)))))
          (pipe_gap m) (base_y m)]\<rparr>"
    by (auto simp: spawn_pipe_mian_def Let_def split: sum.splits)
  define gc where "gc = max (min_center_mian m) (min (max_center_mian m)
             (c + int_of_float (20 * sin (real_of_int ticks / 1000.0 * 1.3))))"
  from random_randint_range [OF c] have "min_center_mian m \<le> max_center_mian m" by simp
  then have "min_center_mian m \<le> gc" "gc \<le> max_center_mian m"
    by (simp_all add: gc_def)
  then have b: "int_of_float (real_of_int (screen_height m) * 0.25) + pipe_gap m div 2 \<le> gc"
    "gc \<le> base_y m - 10 - pipe_gap m div 2"
    by (simp_all add: min_center_mian_def max_center_mian_def)
  have p: "pipes m' = pipes m @
      [PipePair_init (pipe_image m) (screen_width m + 10) gc (pipe_gap m) (base_y m)]"
    by (simp add: m' gc_def)
  have f: "gap_size (PipePair_init (pipe_image m) (screen_width m + 10) gc (pipe_gap m) (base_y m))
      = pipe_gap m"
    "gap_y (PipePair_init (pipe_image m) (screen_width m + 10) gc (pipe_gap m) (base_y m)) = gc"
    by (simp_all add: PipePair_init_def)
  from b show "\<exists>p. pipes m' = pipes m @ [p]
         \<and> gap_size p = pipe_gap m
         \<and> int_of_float (real_of_int (screen_height m) * 0.25) \<le> gap_y p - gap_size p div 2
         \<and> gap_y p + gap_size p div 2 \<le> base_y m - 10
         \<and> rect_bottom (fst (PipePair_rects_mian p)) = gap_y p - gap_size p div 2
         \<and> rect_top (snd (PipePair_rects_mian p)) = gap_y p + gap_size p div 2"
    by (simp add: p PipePair_rects_gap f)
qed



lemma fresh_fields:
  "screen_height fresh = 512" "base_y fresh = 400" "base_pipe_gap fresh = 140"
  "min_pipe_gap fresh = 100" "gap_decrease_rate fresh = 2" "score fresh = 0"
  "pipes fresh = []" "state fresh = WELCOME" "flap_impulse fresh = 280"
  "screen_width fresh = 288" "pipe_image fresh = \<lparr>img_width = 52, img_height = 320\<rparr>"
  by (simp_all add: fresh_def Game_init_def Let_def random_choice_def assets_def)

lemma fresh_mian_fields:
  "screen_height fresh_mian = 512" "base_y fresh_mian = 400" "pipe_gap fresh_mian = 100"
  "score fresh_mian = 0" "pipes fresh_mian = []" "state fresh_mian = WELCOME"
  "flap_impulse fresh_mian = 350" "screen_width fresh_mian = 288"
  "pipe_image fresh_mian = \<lparr>img_width = 52, img_height = 320\<rparr>"
  by (simp_all add: fresh_mian_def Game_init_mian_def Let_def random_choice_def assets_def)

lemma int_of_float_of_int: "int_of_float (real_of_int n) = n"
  by (simp add: int_of_float_def)

lemma int_of_float_128: "int_of_float (512 * 0.25) = 128" "int_of_float 128 = 128"
  by (simp_all add: int_of_float_def)

theorem spawned_gap_in_bounds_witness:
  "(\<exists>g' p. spawn_pipe 5 (fresh\<lparr>score := 2\<rparr>) = Inr g' \<and> pipes g' = [p] \<and> gap_size p = 135
      \<and> 128 \<le> gap_y p - gap_size p div 2 \<and> gap_y p + gap_size p div 2 \<le> 380)
   \<and> (\<exists>m' p. spawn_pipe_mian 0 5 fresh_mian = Inr m' \<and> pipes m' = [p] \<and> gap_size p = 100
      \<and> 128 \<le> gap_y p - gap_size p div 2 \<and> gap_y p + gap_size p div 2 \<le> 390)"
proof -
  have a: "\<exists>g'. spawn_pipe 5 (fresh\<lparr>score := 2\<rparr>) = Inr g'"
    by (simp add: spawn_pipe_def fresh_fields random_randint_def min_center_def max_center_def
        current_gap_def int_of_float_128)
  have b: "\<exists>m'. spawn_pipe_mian 0 5 fresh_mian = Inr m'"
    by (simp add: spawn_pipe_mian_def fresh_mian_fields random_randint_def min_center_mian_def
        max_center_mian_def int_of_float_128 Let_def)
  from spawned_gap_in_bounds [of 5 "fresh\<lparr>score := 2\<rparr>" 0 fresh_mian] a b
  show ?thesis
    by (auto simp: fresh_fields fresh_mian_fields int_of_float_128)
qed

subsection \<open>What every reachable state satisfies\<close>


lemma animate_bird:
  "animate dt b = Inr b' \<Longrightarrow>
   dead b' = dead b \<and> position_x b' = position_x b \<and> frames b' = frames b
   \<and> velocity_y b' = velocity_y b \<and> position_y b' = position_y b"
  by (auto simp: animate_def update_animation_def Let_def split: if_splits)

lemma integrate_bird:
  "dead (integrate dt gr rs pl b) = dead b"
  "position_x (integrate dt gr rs pl b) = position_x b"
  "frames (integrate dt gr rs pl b) = frames b"
  by (simp_all add: integrate_def Let_def)


lemma Bird_update_bird:
  "Bird_update dt gr rs pl b = Inr b' \<Longrightarrow>
   dead b' = dead b \<and> position_x b' = position_x b \<and> frames b' = frames b"
  by (auto simp: Bird_update_def integrate_bird dest!: animate_bird split: sum.splits)


lemma update_score_flap_impulse: "flap_impulse (update_score g) = flap_impulse g"
  by (subst update_score_frame) simp

lemma spawn_pipe_frame: "spawn_pipe r g = Inr g' \<Longrightarrow> \<exists>ps. g' = g\<lparr>pipes := ps\<rparr>"
  by (auto simp: spawn_pipe_def split: if_splits sum.splits)


lemma playing_motion_frame:
  "playing_motion dt r g = Inr g' \<Longrightarrow>
   \<exists>b t ps. g' = g\<lparr>bird := b, pipe_spawn_timer := t, pipes := ps\<rparr>
     \<and> dead b = dead (bird g) \<and> position_x b = position_x (bird g) \<and> frames b = frames (bird g)"
proof -
  assume h: "playing_motion dt r g = Inr g'"
  then obtain b where b: "Bird_update dt (gravity g) (rotation_speed g) True (bird g) = Inr b"
    by (auto simp: playing_motion_def split: sum.splits)
  define g1 where "g1 = g\<lparr>bird := b, pipe_spawn_timer := pipe_spawn_timer g + dt\<rparr>"
  from h b obtain g2 where g2: "g2 = g1 \<or> spawn_pipe r (g1\<lparr>pipe_spawn_timer := 0\<rparr>) = Inr g2"
    and g': "g' = g2\<lparr>pipes :=
       filter (\<lambda>p. pipe_x p + real_of_int (PipePair_width p) > - 50)
         (map (PipePair_update dt) (pipes g2))\<rparr>"
    by (auto simp: playing_motion_def Let_def g1_def split: sum.splits if_splits)
  from g2 have "\<exists>t ps. g2 = g\<lparr>bird := b, pipe_spawn_timer := t, pipes := ps\<rparr>"
  proof
    assume "g2 = g1"
    then have "g2 = g\<lparr>bird := b, pipe_spawn_timer := pipe_spawn_timer g + dt, pipes := pipes g\<rparr>"
      by (simp add: g1_def)
    then show ?thesis by blast
  next
    assume "spawn_pipe r (g1\<lparr>pipe_spawn_timer := 0\<rparr>) = Inr g2"
    from spawn_pipe_frame [OF this] obtain ps where
      "g2 = g\<lparr>bird := b, pipe_spawn_timer := 0, pipes := ps\<rparr>"
      by (auto simp: g1_def)
    then show ?thesis by blast
  qed
  then obtain t ps where "g2 = g\<lparr>bird := b, pipe_spawn_timer := t, pipes := ps\<rparr>" by blast
  then have "g' = g\<lparr>bird := b, pipe_spawn_timer := t, pipes :=
       filter (\<lambda>p. pipe_x p + real_of_int (PipePair_width p) > - 50)
         (map (PipePair_update dt) ps)\<rparr>"
    by (simp add: g')
  with Bird_update_bird [OF b] show ?thesis by blast
qed

lemma reset_fields:
  "state (reset rp rb g) = WELCOME" "score (reset rp rb g) = 0"
  "\<not> dead (bird (reset rp rb g))"
  "screen_height (reset rp rb g) = screen_height g" "base_y (reset rp rb g) = base_y g"
  "base_pipe_gap (reset rp rb g) = base_pipe_gap g"
  "min_pipe_gap (reset rp rb g) = min_pipe_gap g"
  "gap_decrease_rate (reset rp rb g) = gap_decrease_rate g"
  "flap_impulse (reset rp rb g) = flap_impulse g"
  by (simp_all add: reset_def Let_def Bird_init_def)

lemma handle_input_facts:
  "session_facts g0 g \<Longrightarrow> session_facts g0 (handle_input ev rp rb g)"
  by (cases ev; cases "state g")
     (auto simp: session_facts_def handle_input_def on_confirm_def reset_fields Bird_flap_def)

lemma playing_outcome_facts:
  assumes "playing_outcome g = Inr g'" "state g = PLAYING" "session_facts g0 g"
  shows "session_facts g0 g'"
proof -
  from assms(1) obtain hit where
    g': "g' = update_score (if hit then g\<lparr>state := GAME_OVER, bird := (bird g)\<lparr>dead := True\<rparr>\<rparr> else g)"
    by (auto simp: playing_outcome_def split: sum.splits)
  show ?thesis using assms(2,3)
    by (cases hit) (auto simp: g' session_facts_def update_score_unchanged update_score_score
        update_score_flap_impulse)
qed

lemma simulate_facts:
  assumes "simulate dt r g = Inr g'" "session_facts g0 g"
  shows "session_facts g0 g'"
proof (cases "state g")
  case WELCOME
  with assms(1) obtain b where
    "Bird_update dt (gravity g) (rotation_speed g) False (bird g) = Inr b"
    "g' = (update_base dt g)\<lparr>bird := b\<rparr>"
    by (auto simp: simulate_def run_welcome_def update_base_def Let_def split: sum.splits)
  with Bird_update_bird [OF this(1)] assms(2) show ?thesis
    by (simp add: session_facts_def update_base_def Let_def)
next
  case GAME_OVER
  with assms(1) obtain b where
    "g' = (update_base dt g)\<lparr>bird := b\<rparr>"
    by (auto simp: simulate_def run_game_over_def update_base_def Let_def split: sum.splits)
  with GAME_OVER assms(2) show ?thesis
    by (simp add: session_facts_def update_base_def Let_def)
next
  case PLAYING
  with assms(1) obtain g1 where m: "playing_motion dt r (update_base dt g) = Inr g1"
    and o: "playing_outcome g1 = Inr g'"
    by (auto simp: simulate_def run_playing_def update_base_def Let_def split: sum.splits)
  from playing_motion_frame [OF m] obtain b t ps where
    g1: "g1 = (update_base dt g)\<lparr>bird := b, pipe_spawn_timer := t, pipes := ps\<rparr>" by blast
  have "state g1 = PLAYING" "session_facts g0 g1"
    using PLAYING assms(2) by (simp_all add: g1 session_facts_def update_base_def Let_def)
  with o show ?thesis by (rule playing_outcome_facts)
qed

lemma reachable_facts:
  "reachable g0 g \<Longrightarrow> session_facts g0 g0 \<Longrightarrow> session_facts g0 g"
  by (induction rule: reachable.induct) (auto intro: handle_input_facts simulate_facts)

lemma Game_init_facts: "session_facts (Game_init lib st r1 r2 r3) (Game_init lib st r1 r2 r3)"
  by (simp add: session_facts_def Game_init_def Let_def Bird_init_def)



lemma spawn_pipe_returns:
  "gap_decrease_rate g \<noteq> 0 \<Longrightarrow>
   (\<exists>g'. spawn_pipe r g = Inr g') \<longleftrightarrow> min_center g \<le> max_center g"
  by (auto simp: spawn_pipe_def random_randint_def split: sum.splits)

lemma spawn_pipe_mian_returns:
  "(\<exists>m'. spawn_pipe_mian ticks r m = Inr m') \<longleftrightarrow> min_center_mian m \<le> max_center_mian m"
  by (auto simp: spawn_pipe_mian_def random_randint_def Let_def split: sum.splits)

lemma Game_init_settings:
  "base_pipe_gap (Game_init lib st r1 r2 r3) = 140"
  "min_pipe_gap (Game_init lib st r1 r2 r3) = 100"
  "gap_decrease_rate (Game_init lib st r1 r2 r3) = 2"
  "score (Game_init lib st r1 r2 r3) = 0"
  "flap_impulse (Game_init lib st r1 r2 r3) = 280"
  by (simp_all add: Game_init_def Let_def)

lemma reachable_centers:
  assumes "reachable (Game_init lib st r1 r2 r3) h"
  shows "min_center h \<le> min_center (Game_init lib st r1 r2 r3)"
    and "max_center (Game_init lib st r1 r2 r3) \<le> max_center h"
    and "gap_decrease_rate h = 2"
proof -
  let ?g0 = "Game_init lib st r1 r2 r3"
  from reachable_facts [OF assms Game_init_facts]
  have f: "screen_height h = screen_height ?g0" "base_y h = base_y ?g0"
    "base_pipe_gap h = 140" "min_pipe_gap h = 100" "gap_decrease_rate h = 2" "0 \<le> score h"
    by (simp_all add: session_facts_def Game_init_settings)
  have "0 \<le> score h div 2" using f(6) by simp
  then have "current_gap h \<le> 140" by (simp add: current_gap_def f)
  moreover have "current_gap ?g0 = 140" by (simp add: current_gap_def Game_init_settings)
  ultimately have "current_gap h div 2 \<le> current_gap ?g0 div 2" by simp
  then show "min_center h \<le> min_center ?g0" "max_center ?g0 \<le> max_center h"
    by (simp_all add: min_center_def max_center_def f)
  show "gap_decrease_rate h = 2" by (rule f)
qed

text \<open>
  C10. \<^verbatim>\<open>spawn_pipe\<close> returns exactly when \<open>min_center \<le> max_center\<close>, that is
  when a quarter of the screen height plus half the gap is at most the ground
  less the margin less half the gap (halves as the code takes them, by integer
  division); otherwise the draw raises \<^verbatim>\<open>ValueError\<close>. In \<^verbatim>\<open>mian.py\<close> the
  condition does not mention the score. In \<^verbatim>\<open>main1.py\<close> the gap only shrinks as
  the score grows, so when the condition holds for the session as constructed, the
  draw succeeds in every state the session can reach.
\<close>

theorem spawn_pipe_precondition:
  "(gap_decrease_rate g \<noteq> 0 \<longrightarrow>
      ((\<exists>g'. spawn_pipe r g = Inr g') \<longleftrightarrow> min_center g \<le> max_center g))
   \<and> (gap_decrease_rate g \<noteq> 0 \<and> max_center g < min_center g \<longrightarrow>
        spawn_pipe r g = Inl ValueError)
   \<and> ((\<exists>m'. spawn_pipe_mian ticks r m = Inr m') \<longleftrightarrow> min_center_mian m \<le> max_center_mian m)
   \<and> (max_center_mian m < min_center_mian m \<longrightarrow> spawn_pipe_mian ticks r m = Inl ValueError)
   \<and> (min_center g \<le> max_center g \<longleftrightarrow>
        int_of_float (real_of_int (screen_height g) * 0.25) + current_gap g div 2
          \<le> base_y g - 20 - current_gap g div 2)
   \<and> (min_center_mian m \<le> max_center_mian m \<longleftrightarrow>
        int_of_float (real_of_int (screen_height m) * 0.25) + pipe_gap m div 2
          \<le> base_y m - 10 - pipe_gap m div 2)
   \<and> (reachable (Game_init lib st r1 r2 r3) h
        \<and> min_center (Game_init lib st r1 r2 r3) \<le> max_center (Game_init lib st r1 r2 r3) \<longrightarrow>
        (\<exists>h'. spawn_pipe r h = Inr h'))"
proof (intro conjI impI)
  assume "gap_decrease_rate g \<noteq> 0"
  then show "(\<exists>g'. spawn_pipe r g = Inr g') \<longleftrightarrow> min_center g \<le> max_center g"
    by (rule spawn_pipe_returns)
next
  assume "gap_decrease_rate g \<noteq> 0 \<and> max_center g < min_center g"
  then show "spawn_pipe r g = Inl ValueError"
    by (simp add: spawn_pipe_def random_randint_def)
next
  show "(\<exists>m'. spawn_pipe_mian ticks r m = Inr m') \<longleftrightarrow> min_center_mian m \<le> max_center_mian m"
    by (rule spawn_pipe_mian_returns)
next
  assume "max_center_mian m < min_center_mian m"
  then show "spawn_pipe_mian ticks r m = Inl ValueError"
    by (simp add: spawn_pipe_mian_def random_randint_def)
next
  assume a: "reachable (Game_init lib st r1 r2 r3) h
        \<and> min_center (Game_init lib st r1 r2 r3) \<le> max_center (Game_init lib st r1 r2 r3)"
  from reachable_centers [of lib st r1 r2 r3 h] a
  have "min_center h \<le> max_center h" "gap_decrease_rate h \<noteq> 0" by simp_all
  then show "\<exists>h'. spawn_pipe r h = Inr h'" by (simp add: spawn_pipe_returns)
qed (simp_all add: min_center_def max_center_def min_center_mian_def max_center_mian_def)

theorem spawn_pipe_precondition_witness:
  "(\<exists>h'. spawn_pipe 7 (handle_input (KEYDOWN K_SPACE) 0 0 fresh) = Inr h')
   \<and> spawn_pipe 7 (fresh\<lparr>base_y := 200\<rparr>) = Inl ValueError
   \<and> (\<exists>m'. spawn_pipe_mian 0 7 fresh_mian = Inr m')
   \<and> spawn_pipe_mian 0 7 (fresh_mian\<lparr>base_y := 200\<rparr>) = Inl ValueError"
proof -
  have r: "reachable fresh (handle_input (KEYDOWN K_SPACE) 0 0 fresh)"
    by (rule reachable.input) (rule reachable.start)
  have c: "min_center fresh \<le> max_center fresh"
    by (simp add: min_center_def max_center_def current_gap_def fresh_fields int_of_float_128)
  have e: "gap_decrease_rate (fresh\<lparr>base_y := 200\<rparr>) \<noteq> 0"
    "max_center (fresh\<lparr>base_y := 200\<rparr>) < min_center (fresh\<lparr>base_y := 200\<rparr>)"
    by (simp_all add: min_center_def max_center_def current_gap_def fresh_fields int_of_float_128)
  have cm: "min_center_mian fresh_mian \<le> max_center_mian fresh_mian"
    "max_center_mian (fresh_mian\<lparr>base_y := 200\<rparr>) < min_center_mian (fresh_mian\<lparr>base_y := 200\<rparr>)"
    by (simp_all add: min_center_mian_def max_center_mian_def fresh_mian_fields int_of_float_128)
  from spawn_pipe_precondition [where g = "fresh\<lparr>base_y := 200\<rparr>" and r = 7 and ticks = 0
      and m = fresh_mian and lib = assets and st = "\<lparr>content = None, writable = True\<rparr>"
      and ?r1.0 = 0 and ?r2.0 = 0 and ?r3.0 = 0
      and h = "handle_input (KEYDOWN K_SPACE) 0 0 fresh"]
    spawn_pipe_precondition [where g = "fresh\<lparr>base_y := 200\<rparr>" and r = 7 and ticks = 0
      and m = "fresh_mian\<lparr>base_y := 200\<rparr>" and lib = assets
      and st = "\<lparr>content = None, writable = True\<rparr>"
      and ?r1.0 = 0 and ?r2.0 = 0 and ?r3.0 = 0 and h = fresh]
    r c e cm
  show ?thesis unfolding fresh_def [symmetric] by blast
qed

subsection \<open>The state machine\<close>


text \<open>
  C5, as the code has it. In \<^verbatim>\<open>main1.py\<close> a confirm input (space, up or the
  primary mouse button) in the welcome phase starts play and flaps: the velocity
  becomes minus the flap impulse, and nothing else changes. The flap needs a
  living bird, which the bird of the welcome phase is in every state a session
  reaches. In \<^verbatim>\<open>mian.py\<close> the same input only starts play: the bird is left as it
  is, with no impulse.
\<close>

theorem welcome_input:
  "(state g = WELCOME \<and> confirm ev \<and> \<not> dead (bird g) \<longrightarrow>
      handle_input ev rp rb g =
        g\<lparr>state := PLAYING, bird := (bird g)\<lparr>velocity_y := - flap_impulse g\<rparr>\<rparr>)
   \<and> (reachable (Game_init lib st r1 r2 r3) h \<and> state h = WELCOME \<and> confirm ev \<longrightarrow>
      state (handle_input ev rp rb h) = PLAYING
      \<and> velocity_y (bird (handle_input ev rp rb h)) = - flap_impulse h
      \<and> flap_impulse h = 280)
   \<and> (state m = WELCOME \<and> confirm ev \<longrightarrow> handle_input_mian ev m = m\<lparr>state := PLAYING\<rparr>)"
proof (intro conjI impI)
  assume "state g = WELCOME \<and> confirm ev \<and> \<not> dead (bird g)"
  then show "handle_input ev rp rb g =
        g\<lparr>state := PLAYING, bird := (bird g)\<lparr>velocity_y := - flap_impulse g\<rparr>\<rparr>"
    by (auto simp: confirm_def handle_input_def on_confirm_def Bird_flap_def)
next
  assume a: "reachable (Game_init lib st r1 r2 r3) h \<and> state h = WELCOME \<and> confirm ev"
  with reachable_facts [OF _ Game_init_facts, of lib st r1 r2 r3 h]
  have "\<not> dead (bird h)" "flap_impulse h = 280"
    by (simp_all add: session_facts_def Game_init_settings)
  with a show "state (handle_input ev rp rb h) = PLAYING"
    "velocity_y (bird (handle_input ev rp rb h)) = - flap_impulse h"
    "flap_impulse h = 280"
    by (auto simp: confirm_def handle_input_def on_confirm_def Bird_flap_def)
next
  assume "state m = WELCOME \<and> confirm ev"
  then show "handle_input_mian ev m = m\<lparr>state := PLAYING\<rparr>"
    by (auto simp: confirm_def handle_input_mian_def on_confirm_mian_def)
qed

theorem welcome_input_witness:
  "state (handle_input (MOUSEBUTTONDOWN 1) 0 0 fresh) = PLAYING
   \<and> velocity_y (bird (handle_input (MOUSEBUTTONDOWN 1) 0 0 fresh)) = - 280
   \<and> handle_input (KEYDOWN K_UP) 0 0 fresh =
       fresh\<lparr>state := PLAYING, bird := (bird fresh)\<lparr>velocity_y := - flap_impulse fresh\<rparr>\<rparr>
   \<and> handle_input_mian (KEYDOWN K_UP) fresh_mian = fresh_mian\<lparr>state := PLAYING\<rparr>"
proof -
  have a: "state fresh = WELCOME" "\<not> dead (bird fresh)" "state fresh_mian = WELCOME"
    "confirm (MOUSEBUTTONDOWN 1)" "confirm (KEYDOWN K_UP)"
    by (simp_all add: fresh_fields fresh_mian_fields bird_fresh Bird_init_def confirm_def)
  have r: "reachable fresh fresh" by (rule reachable.start)
  from welcome_input [where g = fresh and ev = "MOUSEBUTTONDOWN 1" and rp = 0 and rb = 0
      and lib = assets and st = "\<lparr>content = None, writable = True\<rparr>"
      and ?r1.0 = 0 and ?r2.0 = 0 and ?r3.0 = 0 and h = fresh and m = fresh_mian]
    welcome_input [where g = fresh and ev = "KEYDOWN K_UP" and rp = 0 and rb = 0
      and lib = assets and st = "\<lparr>content = None, writable = True\<rparr>"
      and ?r1.0 = 0 and ?r2.0 = 0 and ?r3.0 = 0 and h = fresh and m = fresh_mian]
    a r
  show ?thesis unfolding fresh_def [symmetric] by simp
qed

text \<open>
  The claim as written fails in \<^verbatim>\<open>mian.py\<close>: in a new session a press of space
  starts play and the velocity stays 0, not minus the flap impulse of 350.
\<close>

theorem welcome_input_counterexample:
  "state fresh_mian = WELCOME \<and> confirm (KEYDOWN K_SPACE)
   \<and> state (handle_input_mian (KEYDOWN K_SPACE) fresh_mian) = PLAYING
   \<and> velocity_y (bird (handle_input_mian (KEYDOWN K_SPACE) fresh_mian))
        \<noteq> - flap_impulse fresh_mian"
  by (simp add: fresh_mian_fields confirm_def handle_input_mian_def on_confirm_def
      on_confirm_mian_def bird_fresh_mian Bird_init_mian_def)



lemma update_base_fields:
  "state (update_base dt g) = state g" "bird (update_base dt g) = bird g"
  "pipes (update_base dt g) = pipes g" "score (update_base dt g) = score g"
  "high_score (update_base dt g) = high_score g"
  by (simp_all add: update_base_def Let_def)








lemma landing_fields:
  "state landing = PLAYING" "score landing = 0" "high_score landing = 0"
  "highscore_file landing = \<lparr>content = None, writable = True\<rparr>"
  "position_x (bird landing) = 72" "base_y landing = 400"
  "gravity landing = 700" "rotation_speed landing = 8"
  "pipe_spawn_timer landing = 0" "pipe_spawn_interval landing = 1.8"
  "pipes landing = [PipePair_init \<lparr>img_width = 52, img_height = 320\<rparr> 21 310 140 400]"
  by (simp_all add: landing_def fresh_def Game_init_def Let_def random_choice_def assets_def
      Bird_init_def load_high_score_def)

lemma landing_bird:
  "bird landing = (Bird_init (frames_of (lib_birds assets Yellow)) (72, 256))
      \<lparr>position_y := 374, velocity_y := 400\<rparr>"
  by (simp add: landing_def fresh_def Game_init_def Let_def random_choice_def assets_def)

lemma update_base_frame: "\<exists>bx. update_base dt g = g\<lparr>base_x := bx\<rparr>"
  by (simp add: update_base_def Let_def) blast









subsection \<open>Scoring in the loop\<close>


lemma PipePair_update_passed: "passed (PipePair_update dt p) = passed p"
  by (simp add: PipePair_update_def)

lemma playing_motion_pipes:
  assumes "playing_motion dt r g = Inr g1"
  shows "\<exists>new. (if pipe_spawn_timer g + dt < pipe_spawn_interval g then new = []
                 else (\<exists>c. new = [PipePair_init (pipe_image g) (screen_width g + 10) c
                                  (current_gap g) (base_y g)]))
     \<and> pipes g1 = filter stays (map (PipePair_update dt) (pipes g @ new))"
proof -
  from assms obtain b where b: "Bird_update dt (gravity g) (rotation_speed g) True (bird g) = Inr b"
    by (auto simp: playing_motion_def split: sum.splits)
  have st: "(\<lambda>p. - 50 < pipe_x p + real_of_int (PipePair_width p)) = stays"
    by (rule ext) (simp add: stays_def)
  show ?thesis
  proof (cases "pipe_spawn_timer g + dt < pipe_spawn_interval g")
    case True
    with assms b have "pipes g1 = filter stays (map (PipePair_update dt) (pipes g @ []))"
      by (auto simp: playing_motion_def Let_def st)
    with True show ?thesis by auto
  next
    case False
    with assms b obtain g2 where
      sp: "spawn_pipe r (g\<lparr>bird := b, pipe_spawn_timer := 0\<rparr>) = Inr g2"
      and g1: "pipes g1 = filter stays (map (PipePair_update dt) (pipes g2))"
      by (auto simp: playing_motion_def Let_def st split: sum.splits)
    from sp obtain c where
      "pipes g2 = pipes g @ [PipePair_init (pipe_image g) (screen_width g + 10) c
         (current_gap g) (base_y g)]"
      by (auto simp: spawn_pipe_def current_gap_def split: if_splits sum.splits)
    with g1 False show ?thesis by auto
  qed
qed

lemma mark_after_move:
  "map passed (map (\<lambda>p. if crosses bx p then p\<lparr>passed := True\<rparr> else p)
     (filter stays (map (PipePair_update dt) ps))) =
   map (\<lambda>p. passed p \<or> crosses bx (PipePair_update dt p))
     (filter (\<lambda>p. stays (PipePair_update dt p)) ps)"
  by (induction ps) (simp_all add: PipePair_update_passed)

lemma count_after_move:
  "length (filter (crosses bx) (filter stays (map (PipePair_update dt) ps))) =
   length (filter (\<lambda>p. \<not> passed p \<and> stays (PipePair_update dt p)
                      \<and> crosses bx (PipePair_update dt p)) ps)"
  by (induction ps) (auto simp: crosses_def PipePair_update_passed)

lemma update_base_spawn_fields:
  "pipe_spawn_timer (update_base dt g) = pipe_spawn_timer g"
  "pipe_spawn_interval (update_base dt g) = pipe_spawn_interval g"
  "pipe_image (update_base dt g) = pipe_image g"
  "screen_width (update_base dt g) = screen_width g"
  "base_y (update_base dt g) = base_y g"
  "current_gap (update_base dt g) = current_gap g"
  by (simp_all add: update_base_def Let_def current_gap_def)

lemma simulate_playing:
  assumes "state g = PLAYING" "simulate dt rc g = Inr g'"
  shows "\<exists>g1 hit. playing_motion dt rc (update_base dt g) = Inr g1
     \<and> check_collisions g1 = Inr hit
     \<and> g' = update_score
              (if hit then g1\<lparr>state := GAME_OVER, bird := (bird g1)\<lparr>dead := True\<rparr>\<rparr> else g1)"
proof -
  from assms have r: "run_playing dt rc (update_base dt g) = Inr g'"
    by (simp add: simulate_def Let_def update_base_fields)
  then obtain g1 where m: "playing_motion dt rc (update_base dt g) = Inr g1"
    and o: "playing_outcome g1 = Inr g'"
    by (cases "playing_motion dt rc (update_base dt g)") (simp_all add: run_playing_def)
  from o obtain hit where c: "check_collisions g1 = Inr hit"
    and "g' = update_score
              (if hit then g1\<lparr>state := GAME_OVER, bird := (bird g1)\<lparr>dead := True\<rparr>\<rparr> else g1)"
    by (cases "check_collisions g1") (simp_all add: playing_outcome_def)
  with m show ?thesis by blast
qed

lemma simulate_playing_pipes:
  assumes "state g = PLAYING" "simulate dt rc g = Inr g'"
  shows "\<exists>new. (if pipe_spawn_timer g + dt < pipe_spawn_interval g then new = []
                 else (\<exists>c. new = [PipePair_init (pipe_image g) (screen_width g + 10) c
                                  (current_gap g) (base_y g)]))
     \<and> pipes g' =
         map (\<lambda>p. if crosses (position_x (bird g)) p then p\<lparr>passed := True\<rparr> else p)
           (filter stays (map (PipePair_update dt) (pipes g @ new)))
     \<and> score g' = score g
         + int (length (filter (crosses (position_x (bird g)))
                  (filter stays (map (PipePair_update dt) (pipes g @ new)))))
     \<and> position_x (bird g') = position_x (bird g)"
proof -
  from simulate_playing [OF assms] obtain g1 hit where
    m: "playing_motion dt rc (update_base dt g) = Inr g1"
    and g': "g' = update_score
              (if hit then g1\<lparr>state := GAME_OVER, bird := (bird g1)\<lparr>dead := True\<rparr>\<rparr> else g1)"
    by blast
  define gd where
    "gd = (if hit then g1\<lparr>state := GAME_OVER, bird := (bird g1)\<lparr>dead := True\<rparr>\<rparr> else g1)"
  have g'': "g' = update_score gd" by (simp add: g' gd_def)
  obtain bx where u: "update_base dt g = g\<lparr>base_x := bx\<rparr>"
    using update_base_frame [of dt g] by blast
  from playing_motion_frame [OF m] obtain b t ps where
    g1: "g1 = (update_base dt g)\<lparr>bird := b, pipe_spawn_timer := t, pipes := ps\<rparr>"
    and b: "position_x b = position_x (bird g)"
    by (auto simp: update_base_fields)
  have f: "position_x (bird gd) = position_x (bird g)" "pipes gd = pipes g1" "score gd = score g"
    by (simp_all add: gd_def g1 b update_base_fields)
  from playing_motion_pipes [OF m] obtain new where
    n: "if pipe_spawn_timer g + dt < pipe_spawn_interval g then new = []
        else (\<exists>c. new = [PipePair_init (pipe_image g) (screen_width g + 10) c
                          (current_gap g) (base_y g)])"
    and p: "pipes g1 = filter stays (map (PipePair_update dt) (pipes g @ new))"
    unfolding update_base_spawn_fields update_base_fields by blast
  have "pipes g' =
         map (\<lambda>p. if crosses (position_x (bird g)) p then p\<lparr>passed := True\<rparr> else p)
           (filter stays (map (PipePair_update dt) (pipes g @ new)))"
    "score g' = score g
         + int (length (filter (crosses (position_x (bird g)))
                  (filter stays (map (PipePair_update dt) (pipes g @ new)))))"
    "position_x (bird g') = position_x (bird g)"
    unfolding g'' update_score_pipes update_score_score update_score_unchanged f p
    by simp_all
  with n show ?thesis by blast
qed

lemma simulate_idle:
  assumes "state g \<noteq> PLAYING" "simulate dt rc g = Inr g'"
  shows "pipes g' = pipes g \<and> score g' = score g \<and> position_x (bird g') = position_x (bird g)
    \<and> state g' = state g"
proof (cases "state g")
  case PLAYING
  with assms show ?thesis by simp
next
  case WELCOME
  with assms(2) obtain b where
    "Bird_update dt (gravity g) (rotation_speed g) False (bird g) = Inr b"
    "g' = (update_base dt g)\<lparr>bird := b\<rparr>"
    by (auto simp: simulate_def run_welcome_def update_base_def Let_def split: sum.splits)
  with Bird_update_bird [OF this(1)] show ?thesis by (simp add: update_base_fields)
next
  case GAME_OVER
  with assms(2) obtain b where
    "Bird_update dt (gravity g * 1.5) (rotation_speed g) True (bird g) = Inr b"
    "g' = (update_base dt g)\<lparr>bird := b\<rparr>"
    by (auto simp: simulate_def run_game_over_def update_base_def Let_def split: sum.splits)
  with Bird_update_bird [OF this(1)] show ?thesis by (simp add: update_base_fields)
qed

lemma handle_input_cases:
  "handle_input ev rp rb g = g \<or> handle_input ev rp rb g = on_confirm rp rb g"
  by (cases ev) (simp_all add: handle_input_def)

lemma on_confirm_pipes:
  "pipes (on_confirm rp rb g) = [] \<and> score (on_confirm rp rb g) = 0
   \<or> pipes (on_confirm rp rb g) = pipes g \<and> score (on_confirm rp rb g) = score g
      \<and> position_x (bird (on_confirm rp rb g)) = position_x (bird g)"
proof (cases "state g")
  case WELCOME
  then show ?thesis by (simp add: on_confirm_def Bird_flap_def)
next
  case PLAYING
  then show ?thesis by (simp add: on_confirm_def Bird_flap_def)
next
  case GAME_OVER
  then show ?thesis by (simp add: on_confirm_def reset_def Let_def)
qed

lemma handle_input_pipes:
  "pipes (handle_input ev rp rb g) = [] \<and> score (handle_input ev rp rb g) = 0
   \<or> pipes (handle_input ev rp rb g) = pipes g \<and> score (handle_input ev rp rb g) = score g
      \<and> position_x (bird (handle_input ev rp rb g)) = position_x (bird g)"
  using handle_input_cases [of ev rp rb g] on_confirm_pipes [of rp rb g]
  by (elim disjE) simp_all

lemma Bird_rect_returns: "frames b \<noteq> [] \<Longrightarrow> \<exists>r. Bird_rect b = Inr r"
  by (simp add: Bird_rect_def Bird_image_def)


lemma Bird_update_returns:
  "frames b \<noteq> [] \<Longrightarrow> \<exists>b'. Bird_update dt gr rs pl b = Inr b'"
  using animate_total [of b dt] by (auto simp: Bird_update_def)

lemma playing_motion_returns:
  assumes "frames (bird g) \<noteq> []"
    and "pipe_spawn_timer g + dt < pipe_spawn_interval g
         \<or> gap_decrease_rate g \<noteq> 0 \<and> min_center g \<le> max_center g"
  shows "\<exists>g1. playing_motion dt r g = Inr g1"
proof -
  from Bird_update_returns [OF assms(1)] obtain b where
    b: "Bird_update dt (gravity g) (rotation_speed g) True (bird g) = Inr b" by blast
  show ?thesis
  proof (cases "pipe_spawn_timer g + dt < pipe_spawn_interval g")
    case True
    then show ?thesis by (simp add: playing_motion_def b Let_def)
  next
    case False
    define gs where "gs = g\<lparr>bird := b, pipe_spawn_timer := 0\<rparr>"
    from False assms(2) have "gap_decrease_rate gs \<noteq> 0" "min_center gs \<le> max_center gs"
      by (simp_all add: gs_def min_center_def max_center_def current_gap_def)
    then obtain g2 where "spawn_pipe r gs = Inr g2" using spawn_pipe_returns [of gs r] by blast
    with False show ?thesis by (simp add: playing_motion_def b Let_def gs_def)
  qed
qed

lemma simulate_returns:
  assumes "state g = PLAYING" "frames (bird g) \<noteq> []"
    and "pipe_spawn_timer g + dt < pipe_spawn_interval g
         \<or> gap_decrease_rate g \<noteq> 0 \<and> min_center g \<le> max_center g"
  shows "\<exists>g'. simulate dt rc g = Inr g'"
proof -
  obtain bx where u: "update_base dt g = g\<lparr>base_x := bx\<rparr>"
    using update_base_frame [of dt g] by blast
  have "frames (bird (update_base dt g)) \<noteq> []"
    "pipe_spawn_timer (update_base dt g) + dt < pipe_spawn_interval (update_base dt g)
       \<or> gap_decrease_rate (update_base dt g) \<noteq> 0
          \<and> min_center (update_base dt g) \<le> max_center (update_base dt g)"
    using assms(2,3) by (simp_all add: u min_center_def max_center_def current_gap_def)
  from playing_motion_returns [OF this] obtain g1 where
    m: "playing_motion dt rc (update_base dt g) = Inr g1" by blast
  from playing_motion_frame [OF m] have "frames (bird g1) \<noteq> []"
    using assms(2) by (auto simp: update_base_fields)
  from Bird_rect_returns [OF this] obtain hit where "check_collisions g1 = Inr hit"
    by (auto simp: check_collisions_def)
  with m assms(1) show ?thesis
    by (simp add: simulate_def Let_def update_base_fields run_playing_def playing_outcome_def)
qed

lemma no_cross_after_mark:
  "filter (crosses bx) (map (\<lambda>p. if crosses bx p then p\<lparr>passed := True\<rparr> else p) ps) = []"
  by (auto simp: filter_empty_conv crosses_def)

lemma flagged_after_mark:
  "length (filter passed (map (\<lambda>p. if crosses bx p then p\<lparr>passed := True\<rparr> else p) ps)) =
   length (filter passed ps) + length (filter (crosses bx) ps)"
  by (induction ps) (auto simp: crosses_def)

lemma flagged_after_move:
  "length (filter passed (filter stays (map (PipePair_update dt) ps)))
   \<le> length (filter passed ps)"
  by (induction ps) (auto simp: PipePair_update_passed)

lemma reachable_flagged:
  assumes "reachable g0 h"
    and "filter (crosses (position_x (bird g0))) (pipes g0) = []"
    and "int (length (filter passed (pipes g0))) \<le> score g0"
  shows "filter (crosses (position_x (bird h))) (pipes h) = []
    \<and> int (length (filter passed (pipes h))) \<le> score h"
  using assms
proof (induction rule: reachable.induct)
  case start
  then show ?case by simp
next
  case (input g ev rp rb)
  with handle_input_pipes [of ev rp rb g] show ?case by auto
next
  case (frame g dt rc g')
  then have ih: "filter (crosses (position_x (bird g))) (pipes g) = []"
    "int (length (filter passed (pipes g))) \<le> score g" by simp_all
  show ?case
  proof (cases "state g = PLAYING")
    case False
    from simulate_idle [OF False frame.hyps(2)] ih show ?thesis by simp
  next
    case True
    from simulate_playing_pipes [OF True frame.hyps(2)] obtain new where
      n: "new = [] \<or> (\<exists>c. new = [PipePair_init (pipe_image g) (screen_width g + 10) c
                                  (current_gap g) (base_y g)])"
      and p: "pipes g' =
         map (\<lambda>p. if crosses (position_x (bird g)) p then p\<lparr>passed := True\<rparr> else p)
           (filter stays (map (PipePair_update dt) (pipes g @ new)))"
      and s: "score g' = score g
         + int (length (filter (crosses (position_x (bird g)))
                  (filter stays (map (PipePair_update dt) (pipes g @ new)))))"
      and x: "position_x (bird g') = position_x (bird g)"
      by (auto split: if_splits)
    from n have "filter passed new = []" by (auto simp: PipePair_init_def)
    then have "length (filter passed (pipes g @ new)) = length (filter passed (pipes g))"
      by simp
    with flagged_after_move [of dt "pipes g @ new"] ih(2)
    have a: "int (length (filter passed (filter stays (map (PipePair_update dt) (pipes g @ new)))))
      \<le> score g" by linarith
    have "filter (crosses (position_x (bird g'))) (pipes g') = []"
      unfolding p x by (rule no_cross_after_mark)
    moreover have "int (length (filter passed (pipes g'))) \<le> score g'"
      unfolding p s flagged_after_mark using a by linarith
    ultimately show ?thesis by blast
  qed
qed


text \<open>
  C1. \<^verbatim>\<open>update_score\<close> adds to the score the number of pipes of the collection
  that are not yet flagged and whose right edge \<open>x + width\<close> is strictly left of
  the bird's edge, which in the code is \<^verbatim>\<open>bird.position_x\<close> (one point each, so
  two points when two pipes cross in the same tick), and it flags exactly these
  pipes. After it no pipe of the collection qualifies, so an immediate second call
  adds nothing.

  In the loop of \<^verbatim>\<open>run\<close>, from any state and for any \<open>dt\<close>: a pass in the
  \<^verbatim>\<open>PLAYING\<close> phase moves the pipes, the one it may have spawned included, drops
  those that do not stay on screen, and then scores; the points it adds are
  counted among the pipes that were not flagged before the pass, and each pipe
  that is kept has its flag set if it was set before or if the pipe scored now.
  So a flagged pipe adds nothing in any later pass and stays flagged as long as
  it is in the collection, and a pipe that is dropped before it was scored never
  scores. A pass in another phase leaves pipes and score alone, and an input
  either does the same or, on a reset, empties the collection and zeroes the
  score. Hence in every state a session reaches every pipe of the collection that
  is left of the bird is flagged, and the flagged pipes of the collection are at
  most as many as the points scored.
\<close>

theorem score_once_per_pipe:
  "score (update_score g) =
     score g + int (length (filter (crosses (position_x (bird g))) (pipes g)))
   \<and> pipes (update_score g) =
       map (\<lambda>p. if crosses (position_x (bird g)) p then p\<lparr>passed := True\<rparr> else p) (pipes g)
   \<and> filter (crosses (position_x (bird g))) (pipes (update_score g)) = []
   \<and> score (update_score (update_score g)) = score (update_score g)
   \<and> (state g = PLAYING \<and> simulate dt rc g = Inr g' \<longrightarrow>
        (\<exists>new. (if pipe_spawn_timer g + dt < pipe_spawn_interval g then new = []
                 else (\<exists>c. new = [PipePair_init (pipe_image g) (screen_width g + 10) c
                                  (current_gap g) (base_y g)]))
           \<and> map passed (pipes g') =
               map (\<lambda>p. passed p \<or> crosses (position_x (bird g)) (PipePair_update dt p))
                 (filter (\<lambda>p. stays (PipePair_update dt p)) (pipes g @ new))
           \<and> score g' = score g
               + int (length (filter (\<lambda>p. \<not> passed p \<and> stays (PipePair_update dt p)
                        \<and> crosses (position_x (bird g)) (PipePair_update dt p)) (pipes g @ new)))
           \<and> filter (crosses (position_x (bird g'))) (pipes g') = []))
   \<and> (state g = PLAYING \<and> frames (bird g) \<noteq> []
        \<and> (pipe_spawn_timer g + dt < pipe_spawn_interval g
            \<or> gap_decrease_rate g \<noteq> 0 \<and> min_center g \<le> max_center g) \<longrightarrow>
        (\<exists>g'. simulate dt rc g = Inr g'))
   \<and> (state g \<noteq> PLAYING \<and> simulate dt rc g = Inr g' \<longrightarrow>
        pipes g' = pipes g \<and> score g' = score g)
   \<and> (pipes (handle_input ev rp rb g) = [] \<and> score (handle_input ev rp rb g) = 0
        \<or> pipes (handle_input ev rp rb g) = pipes g
           \<and> score (handle_input ev rp rb g) = score g)
   \<and> (reachable (Game_init lib st r1 r2 r3) h \<longrightarrow>
        filter (crosses (position_x (bird h))) (pipes h) = []
        \<and> int (length (filter passed (pipes h))) \<le> score h)"
proof (intro conjI impI)
  show e: "filter (crosses (position_x (bird g))) (pipes (update_score g)) = []"
    unfolding update_score_pipes by (rule no_cross_after_mark)
  show "score (update_score (update_score g)) = score (update_score g)"
    using e by (simp add: update_score_score [of "update_score g"] update_score_unchanged)
next
  assume a: "state g = PLAYING \<and> simulate dt rc g = Inr g'"
  then have p: "state g = PLAYING" and s: "simulate dt rc g = Inr g'" by simp_all
  from simulate_playing_pipes [OF p s] obtain new where
    n: "if pipe_spawn_timer g + dt < pipe_spawn_interval g then new = []
        else (\<exists>c. new = [PipePair_init (pipe_image g) (screen_width g + 10) c
                          (current_gap g) (base_y g)])"
    and ps: "pipes g' =
         map (\<lambda>p. if crosses (position_x (bird g)) p then p\<lparr>passed := True\<rparr> else p)
           (filter stays (map (PipePair_update dt) (pipes g @ new)))"
    and sc: "score g' = score g
         + int (length (filter (crosses (position_x (bird g)))
                  (filter stays (map (PipePair_update dt) (pipes g @ new)))))"
    and x: "position_x (bird g') = position_x (bird g)"
    by blast
  have "map passed (pipes g') =
      map (\<lambda>p. passed p \<or> crosses (position_x (bird g)) (PipePair_update dt p))
        (filter (\<lambda>p. stays (PipePair_update dt p)) (pipes g @ new))"
    unfolding ps by (rule mark_after_move)
  moreover have "score g' = score g
      + int (length (filter (\<lambda>p. \<not> passed p \<and> stays (PipePair_update dt p)
               \<and> crosses (position_x (bird g)) (PipePair_update dt p)) (pipes g @ new)))"
    unfolding sc count_after_move ..
  moreover have "filter (crosses (position_x (bird g'))) (pipes g') = []"
    unfolding ps x by (rule no_cross_after_mark)
  ultimately show "\<exists>new. (if pipe_spawn_timer g + dt < pipe_spawn_interval g then new = []
                 else (\<exists>c. new = [PipePair_init (pipe_image g) (screen_width g + 10) c
                                  (current_gap g) (base_y g)]))
           \<and> map passed (pipes g') =
               map (\<lambda>p. passed p \<or> crosses (position_x (bird g)) (PipePair_update dt p))
                 (filter (\<lambda>p. stays (PipePair_update dt p)) (pipes g @ new))
           \<and> score g' = score g
               + int (length (filter (\<lambda>p. \<not> passed p \<and> stays (PipePair_update dt p)
                        \<and> crosses (position_x (bird g)) (PipePair_update dt p)) (pipes g @ new)))
           \<and> filter (crosses (position_x (bird g'))) (pipes g') = []"
    using n by blast
next
  assume "state g = PLAYING \<and> frames (bird g) \<noteq> []
        \<and> (pipe_spawn_timer g + dt < pipe_spawn_interval g
            \<or> gap_decrease_rate g \<noteq> 0 \<and> min_center g \<le> max_center g)"
  then show "\<exists>g'. simulate dt rc g = Inr g'" by (simp add: simulate_returns)
next
  assume a: "state g \<noteq> PLAYING \<and> simulate dt rc g = Inr g'"
  then have "state g \<noteq> PLAYING" "simulate dt rc g = Inr g'" by simp_all
  from simulate_idle [OF this] show "pipes g' = pipes g" "score g' = score g" by simp_all
next
  show "pipes (handle_input ev rp rb g) = [] \<and> score (handle_input ev rp rb g) = 0
        \<or> pipes (handle_input ev rp rb g) = pipes g
           \<and> score (handle_input ev rp rb g) = score g"
    using handle_input_pipes [of ev rp rb g] by blast
next
  assume r: "reachable (Game_init lib st r1 r2 r3) h"
  have "filter (crosses (position_x (bird (Game_init lib st r1 r2 r3))))
      (pipes (Game_init lib st r1 r2 r3)) = []"
    "int (length (filter passed (pipes (Game_init lib st r1 r2 r3))))
      \<le> score (Game_init lib st r1 r2 r3)"
    by (simp_all add: Game_init_def Let_def)
  from reachable_flagged [OF r this]
  show "filter (crosses (position_x (bird h))) (pipes h) = []"
    "int (length (filter passed (pipes h))) \<le> score h" by simp_all
qed (simp_all add: update_score_score update_score_pipes)


text \<open>
  Examples: two pipes crossing in one call; a pass in which the pipe of
  \<open>landing\<close> crosses and scores; the same pass with the pipe already flagged,
  which adds nothing; and a frame of 0.82 seconds, in which that pipe is moved
  past the left margin and dropped before the score is updated, so that it never
  scores.
\<close>

lemma landing_frames: "frames (bird landing) \<noteq> []"
  by (simp add: landing_bird Bird_init_def frames_of_def assets_def)

theorem score_once_per_pipe_witness:
  "score (update_score crossing_pair) = score crossing_pair + 2
   \<and> map passed (pipes (update_score crossing_pair)) = [True, True, False]
   \<and> score (update_score (update_score crossing_pair)) = score (update_score crossing_pair)
   \<and> (\<exists>g'. simulate (1 / 50) 0 landing = Inr g'
         \<and> map passed (pipes g') = [True] \<and> score g' = score landing + 1)
   \<and> (\<exists>g'. simulate (1 / 50) 0
               (landing\<lparr>pipes := map (\<lambda>p. p\<lparr>passed := True\<rparr>) (pipes landing)\<rparr>) = Inr g'
         \<and> map passed (pipes g') = [True] \<and> score g' = score landing)
   \<and> (\<exists>g'. simulate (41 / 50) 0 landing = Inr g' \<and> pipes g' = [] \<and> score g' = score landing)
   \<and> filter (crosses (position_x (bird fresh))) (pipes fresh) = []"
proof -
  note T = score_once_per_pipe
  define flagged where
    "flagged = landing\<lparr>pipes := map (\<lambda>p. p\<lparr>passed := True\<rparr>) (pipes landing)\<rparr>"
  have u: "score (update_score crossing_pair) = score crossing_pair + 2
     \<and> map passed (pipes (update_score crossing_pair)) = [True, True, False]
     \<and> score (update_score (update_score crossing_pair)) = score (update_score crossing_pair)"
    using T [where g = crossing_pair]
    by (simp add: crossing_pair_fields crosses_def PipePair_init_def PipePair_width_def)
  have l: "state landing = PLAYING" "frames (bird landing) \<noteq> []"
    "pipe_spawn_timer landing + 1 / 50 < pipe_spawn_interval landing"
    "pipe_spawn_timer landing + 41 / 50 < pipe_spawn_interval landing"
    by (simp_all add: landing_fields landing_frames)
  have f: "state flagged = PLAYING" "frames (bird flagged) \<noteq> []"
    "pipe_spawn_timer flagged + 1 / 50 < pipe_spawn_interval flagged"
    "score flagged = score landing" "position_x (bird flagged) = 72"
    "pipes flagged = map (\<lambda>p. p\<lparr>passed := True\<rparr>) (pipes landing)"
    by (simp_all add: flagged_def landing_fields landing_frames)
  from T [where g = landing and dt = "1 / 50" and rc = 0] l
  obtain g1 where s1: "simulate (1 / 50) 0 landing = Inr g1" by blast
  from T [where g = landing and dt = "1 / 50" and rc = 0 and g' = g1] l s1
  have r1: "map passed (pipes g1) = [True]" "score g1 = score landing + 1"
    by (auto simp: landing_fields crosses_def stays_def PipePair_init_def PipePair_width_def
        PipePair_update_def)
  from T [where g = flagged and dt = "1 / 50" and rc = 0] f
  obtain g2 where s2: "simulate (1 / 50) 0 flagged = Inr g2" by blast
  from T [where g = flagged and dt = "1 / 50" and rc = 0 and g' = g2] f s2
  have r2: "map passed (pipes g2) = [True]" "score g2 = score landing"
    by (auto simp: landing_fields crosses_def stays_def PipePair_init_def PipePair_width_def
        PipePair_update_def)
  from T [where g = landing and dt = "41 / 50" and rc = 0] l
  obtain g3 where s3: "simulate (41 / 50) 0 landing = Inr g3" by blast
  from T [where g = landing and dt = "41 / 50" and rc = 0 and g' = g3] l s3
  have r3: "pipes g3 = []" "score g3 = score landing"
    by (auto simp: landing_fields crosses_def stays_def PipePair_init_def PipePair_width_def
        PipePair_update_def)
  have r4: "filter (crosses (position_x (bird fresh))) (pipes fresh) = []"
    using T [where lib = assets and st = "\<lparr>content = None, writable = True\<rparr>"
        and ?r1.0 = 0 and ?r2.0 = 0 and ?r3.0 = 0 and h = fresh]
      reachable.start [of fresh]
    unfolding fresh_def [symmetric] by blast
  have e1: "\<exists>g'. simulate (1 / 50) 0 landing = Inr g'
         \<and> map passed (pipes g') = [True] \<and> score g' = score landing + 1"
    by (rule exI [of _ g1]) (simp add: s1 r1)
  have e2: "\<exists>g'. simulate (1 / 50) 0
               (landing\<lparr>pipes := map (\<lambda>p. p\<lparr>passed := True\<rparr>) (pipes landing)\<rparr>) = Inr g'
         \<and> map passed (pipes g') = [True] \<and> score g' = score landing"
    by (rule exI [of _ g2]) (use s2 r2 in \<open>simp add: flagged_def\<close>)
  have e3: "\<exists>g'. simulate (41 / 50) 0 landing = Inr g' \<and> pipes g' = []
         \<and> score g' = score landing"
    by (rule exI [of _ g3]) (simp add: s3 r3)
  show ?thesis
    by (intro conjI) (use u e1 e2 e3 r4 in simp_all)
qed

end
